theory Spec2Isabelle
  imports Main "HOL-Library.AList"
begin

section \<open>Errors\<close>

text \<open>
  The exceptions that the modelled code can raise. A function that can raise returns a
  sum, with the exception on the left.
\<close>

datatype error =
  HTTPError | JSONDecodeError | AttributeError | TypeError | KeyError | ValueError
| NameError | OverflowError | StorageError

text \<open>A function on every element in order, up to the first exception.\<close>

fun series_map :: "('a \<Rightarrow> error + 'b) \<Rightarrow> 'a list \<Rightarrow> error + 'b list" where
  "series_map g [] = Inr []"
| "series_map g (x # xs) =
     (case g x of
        Inl e \<Rightarrow> Inl e
      | Inr y \<Rightarrow> (case series_map g xs of Inl e \<Rightarrow> Inl e | Inr ys \<Rightarrow> Inr (y # ys)))"

section \<open>Stage 2: the prompt generator (2_generate_prompts.py)\<close>

subsection \<open>Data\<close>

text \<open>
  The dataset that the generator receives is a DataFrame read from a CSV file: a list of
  column labels, and rows that give a cell for a label. A cell is missing (NaN), a
  string, or a value of the numeric type \<open>'v\<close>.

  A timestamp is a number of seconds, and its calendar day is the quotient by 86400; a
  calendar day is its day number, with day 0 the first of January 1970.
\<close>

type_synonym date = int

datatype 'v cell = Missing | Text string | Number 'v

record 'v frame =
  labels :: "string list"
  frame_rows :: "(string \<Rightarrow> 'v cell) list"

text \<open>A row of \<open>daily_data\<close>: the day and the mean of the day's values.\<close>

record 'v daily_row =
  date :: date
  daily_value :: 'v

text \<open>
  What the code takes from pandas and from Python's formatting, as parameters.
  \<open>pd_to_datetime\<close> parses the cells of a column, one result per cell, \<open>None\<close> for NaT,
  or raises on a cell that it cannot parse. \<open>pd_mean\<close> is the mean of the cells of one
  day: a value, \<open>None\<close> for NaN, or an exception on cells that have no mean. \<open>fmt_2f\<close>
  is the \<open>:.2f\<close> format of a value and \<open>fmt_date\<close> the text of a date.
\<close>

record 'v lib =
  pd_to_datetime :: "'v cell list \<Rightarrow> error + int option list"
  pd_mean :: "'v cell list \<Rightarrow> error + 'v option"
  fmt_2f :: "'v \<Rightarrow> string"
  fmt_date :: "date \<Rightarrow> string"

text \<open>
  The result of \<open>daily_data['date'].max()\<close> and of the date arithmetic on it: a day,
  or, on an empty column, the float NaN, which plus or minus a time difference is NaT.
\<close>

datatype scalar_date = Day date | NaT | NaN

record prompt_record =
  Prompt :: string
  Completion :: string

text \<open>
  The second list the generator returns holds plain instruction strings for zero-shot
  and instruction/response dictionaries for fine-tuning.
\<close>

datatype prompt_entry =
  Instruction string
| InstructionResponse (instruction: string) (response: string)

record gen_state =
  prompts :: "prompt_entry list"
  output_list :: "prompt_record list"
  prompt_count :: nat

subsection \<open>Strings\<close>

text \<open>Strings are byte lists: the micro sign and the superscript three are in UTF-8.\<close>

definition nl :: string where
  "nl = [CHR 0x0A]"

definition quote :: string where
  "quote = [CHR 0x27]"

definition ug_m3 :: string where
  "ug_m3 = [CHR 0xC2, CHR 0xB5] @ ''g/m'' @ [CHR 0xC2, CHR 0xB3]"

fun join :: "string \<Rightarrow> string list \<Rightarrow> string" where
  "join sep [] = []"
| "join sep [x] = x"
| "join sep (x # y # ys) = x @ sep @ join sep (y # ys)"

definition historical_header :: string where
  "historical_header =
     ''| Date       | Value ('' @ ug_m3 @ '') |'' @ nl @ ''|------------|---------------|'' @ nl"

definition predicted_header :: string where
  "predicted_header =
     ''| Date       | Predicted Value ('' @ ug_m3 @ '') |'' @ nl
       @ ''|------------|-------------------------|''"

definition render_row :: "'v lib \<Rightarrow> 'v daily_row \<Rightarrow> string" where
  "render_row L row = ''| '' @ fmt_date L (date row) @ '' | '' @ fmt_2f L (daily_value row) @ '' |''"

definition render_rows :: "'v lib \<Rightarrow> 'v daily_row list \<Rightarrow> string" where
  "render_rows L rows = join nl (map (render_row L) rows)"

fun fmt_scalar_date :: "'v lib \<Rightarrow> scalar_date \<Rightarrow> string" where
  "fmt_scalar_date L (Day d) = fmt_date L d"
| "fmt_scalar_date L NaT = ''NaT''"
| "fmt_scalar_date L NaN = ''nan''"

subsection \<open>The common prefix: parse, filter, sort, resample, drop the empty days\<close>

definition date_of :: "int \<Rightarrow> date" where
  "date_of t = t div 86400"

text \<open>\<open>sort_values(by='datetime')\<close>: ascending, the rows without a timestamp last.\<close>

definition sort_values_datetime :: "(int option \<times> 'a) list \<Rightarrow> (int option \<times> 'a) list" where
  "sort_values_datetime xs =
     sort_key (\<lambda>x. case fst x of Some t \<Rightarrow> t | None \<Rightarrow> 0) (filter (\<lambda>x. fst x \<noteq> None) xs)
       @ filter (\<lambda>x. fst x = None) xs"

text \<open>
  The first two statements: the \<open>datetime\<close> column is parsed (KeyError without the
  column, and the parser's exception on a cell it rejects), then the rows of the
  location are selected (KeyError without a \<open>location_name\<close> column) and sorted. The
  result pairs each selected row with its timestamp, which is the index from here on.
\<close>

definition df_location ::
  "'v lib \<Rightarrow> 'v frame \<Rightarrow> string \<Rightarrow> error + (int option \<times> (string \<Rightarrow> 'v cell)) list" where
  "df_location L df name =
     (if ''datetime'' \<notin> set (labels df) then Inl KeyError
      else case pd_to_datetime L (map (\<lambda>r. r ''datetime'') (frame_rows df)) of
             Inl e \<Rightarrow> Inl e
           | Inr stamps \<Rightarrow>
               if ''location_name'' \<notin> set (labels df) then Inl KeyError
               else Inr (sort_values_datetime
                          (filter (\<lambda>x. snd x ''location_name'' = Text name)
                             (zip stamps (frame_rows df)))))"

text \<open>
  \<open>resample('D').mean()\<close> on the column \<open>parameter\<close>: one row for every calendar day
  from the first to the last timestamp, with the mean of the day's cells, NaN on a day
  without a row. Rows without a timestamp belong to no day; when rows are present and
  none has a timestamp, there is no first day and the library raises ValueError.
\<close>

definition day_mean ::
  "'v lib \<Rightarrow> string \<Rightarrow> (int option \<times> (string \<Rightarrow> 'v cell)) list \<Rightarrow> date \<Rightarrow> error + 'v option" where
  "day_mean L parameter rows d =
     (let vs = map (\<lambda>x. snd x parameter)
                 (filter (\<lambda>x. map_option date_of (fst x) = Some d) rows)
      in if vs = [] then Inr None else pd_mean L vs)"

definition resample_D_mean ::
  "'v lib \<Rightarrow> string \<Rightarrow> (int option \<times> (string \<Rightarrow> 'v cell)) list
     \<Rightarrow> error + (date \<times> 'v option) list" where
  "resample_D_mean L parameter rows =
     (if rows = [] then Inr []
      else case List.map_filter fst rows of
             [] \<Rightarrow> Inl ValueError
           | t # ts \<Rightarrow>
               series_map
                 (\<lambda>d. case day_mean L parameter rows d of
                         Inl e \<Rightarrow> Inl e
                       | Inr m \<Rightarrow> Inr (d, m))
                 [date_of t .. date_of (last (t # ts))])"

fun dropna_daily :: "(date \<times> 'v option) list \<Rightarrow> 'v daily_row list" where
  "dropna_daily [] = []"
| "dropna_daily ((d, None) # xs) = dropna_daily xs"
| "dropna_daily ((d, Some v) # xs) = \<lparr>date = d, daily_value = v\<rparr> # dropna_daily xs"

text \<open>
  \<open>daily_data\<close>. After \<open>set_index('datetime')\<close> the frame has no column \<open>datetime\<close>,
  so selecting \<open>[[parameter]]\<close> raises KeyError for that label as for an unknown one.
\<close>

definition daily_data ::
  "'v lib \<Rightarrow> 'v frame \<Rightarrow> string \<Rightarrow> string \<Rightarrow> error + 'v daily_row list" where
  "daily_data L df name parameter =
     (case df_location L df name of
        Inl e \<Rightarrow> Inl e
      | Inr rows \<Rightarrow>
          if parameter \<notin> set (labels df) \<or> parameter = ''datetime'' then Inl KeyError
          else (case resample_D_mean L parameter rows of
                  Inl e \<Rightarrow> Inl e
                | Inr binned \<Rightarrow> Inr (dropna_daily binned)))"

subsection \<open>Date scalars and slices\<close>

fun series_max :: "date list \<Rightarrow> scalar_date" where
  "series_max [] = NaN"
| "series_max (d # ds) = Day (fold max ds d)"

text \<open>
  \<open>pd.Timedelta(days=k)\<close> holds nanoseconds in 64 bits: it exists for at most 106751
  days in either direction and raises beyond. A \<open>datetime.date\<close> lies between
  0001-01-01 (day -719162) and 9999-12-31 (day 2932896), and adding a time difference
  raises OverflowError when the result does not.
\<close>

definition Timedelta :: "int \<Rightarrow> error + int" where
  "Timedelta days = (if - 106751 \<le> days \<and> days \<le> 106751 then Inr days else Inl OverflowError)"

definition date_min :: date where
  "date_min = - 719162"

definition date_max :: date where
  "date_max = 2932896"

fun plus_days :: "scalar_date \<Rightarrow> int \<Rightarrow> error + scalar_date" where
  "plus_days (Day d) k =
     (if date_min \<le> d + k \<and> d + k \<le> date_max then Inr (Day (d + k)) else Inl OverflowError)"
| "plus_days NaT k = Inr NaT"
| "plus_days NaN k = Inr NaT"

text \<open>Comparing a date cell with a scalar: false against NaT and NaN.\<close>

fun date_ge :: "date \<Rightarrow> scalar_date \<Rightarrow> bool" where
  "date_ge d (Day e) = (e \<le> d)"
| "date_ge d NaT = False"
| "date_ge d NaN = False"

fun date_le :: "date \<Rightarrow> scalar_date \<Rightarrow> bool" where
  "date_le d (Day e) = (d \<le> e)"
| "date_le d NaT = False"
| "date_le d NaN = False"

text \<open>
  Python's slice \<open>xs[start:stop]\<close>, which \<open>iloc\<close> follows: a negative bound counts
  from the end, and both bounds are clamped to the list.
\<close>

definition slice_bound :: "nat \<Rightarrow> int \<Rightarrow> nat" where
  "slice_bound n i = (if i < 0 then nat (max 0 (int n + i)) else min n (nat i))"

definition py_slice :: "'a list \<Rightarrow> int \<Rightarrow> int \<Rightarrow> 'a list" where
  "py_slice xs start stop =
     (let a = slice_bound (length xs) start; b = slice_bound (length xs) stop
      in take (b - a) (drop a xs))"

subsection \<open>create_daily_forecast_prompts_v4\<close>

text \<open>
  The four dates of the zero-shot branch, in the order in which the code computes them:
  the end and the start of the historical window, then the start and the end of the
  forecast window. Each time difference is built before it is added.
\<close>

record zero_shot_dates =
  start_historical_date :: scalar_date
  end_historical_date :: scalar_date
  forecast_start_date :: scalar_date
  forecast_end_date :: scalar_date

definition zero_shot_window ::
  "'v daily_row list \<Rightarrow> int \<Rightarrow> int \<Rightarrow> error + zero_shot_dates" where
  "zero_shot_window daily history_length_days forecast_days =
     (let end_date = series_max (map date daily)
      in case Timedelta (history_length_days - 1) of
           Inl e \<Rightarrow> Inl e
         | Inr back \<Rightarrow>
        (case plus_days end_date (- back) of
           Inl e \<Rightarrow> Inl e
         | Inr start_date \<Rightarrow>
        (case Timedelta 1 of
           Inl e \<Rightarrow> Inl e
         | Inr one \<Rightarrow>
        (case plus_days end_date one of
           Inl e \<Rightarrow> Inl e
         | Inr fc_start \<Rightarrow>
        (case Timedelta (forecast_days - 1) of
           Inl e \<Rightarrow> Inl e
         | Inr ahead \<Rightarrow>
        (case plus_days fc_start ahead of
           Inl e \<Rightarrow> Inl e
         | Inr fc_end \<Rightarrow>
             Inr \<lparr>start_historical_date = start_date, end_historical_date = end_date,
                  forecast_start_date = fc_start, forecast_end_date = fc_end\<rparr>))))))"

definition zero_shot_historical_data ::
  "'v daily_row list \<Rightarrow> zero_shot_dates \<Rightarrow> 'v daily_row list" where
  "zero_shot_historical_data daily w =
     sort_key date
       (filter (\<lambda>row. date_ge (date row) (start_historical_date w)
                     \<and> date_le (date row) (end_historical_date w)) daily)"

text \<open>The instruction of a zero-shot prompt: the f-string, with its seven holes.\<close>

definition zero_shot_text ::
  "string \<Rightarrow> string \<Rightarrow> string \<Rightarrow> string \<Rightarrow> string \<Rightarrow> string \<Rightarrow> string \<Rightarrow> string" where
  "zero_shot_text name parameter start_text end_text formatted_historical_data
       forecast_start_text forecast_end_text =
     ''You are an advanced forecasting system tasked with predicting daily air quality for ''
       @ name @ ''.'' @ nl
     @ ''The data includes daily mean values for '' @ quote @ parameter @ quote
       @ '' (in '' @ ug_m3 @ '').'' @ nl @ nl
     @ ''### Historical Data (from '' @ start_text @ '' to '' @ end_text @ ''):'' @ nl
     @ formatted_historical_data @ nl @ nl
     @ ''### Instructions:'' @ nl
     @ ''1. Forecast daily mean '' @ quote @ parameter @ quote @ '' for each day from ''
       @ forecast_start_text @ '' to '' @ forecast_end_text @ ''.'' @ nl
     @ ''2. Provide output as a table:'' @ nl
     @ predicted_header"

definition zero_shot_instruction ::
  "'v lib \<Rightarrow> 'v daily_row list \<Rightarrow> string \<Rightarrow> string \<Rightarrow> zero_shot_dates \<Rightarrow> string" where
  "zero_shot_instruction L daily name parameter w =
     (let historical_data = zero_shot_historical_data daily w;
          formatted_historical_data = historical_header @ render_rows L historical_data
      in zero_shot_text name parameter
           (fmt_scalar_date L (start_historical_date w)) (fmt_scalar_date L (end_historical_date w))
           formatted_historical_data
           (fmt_scalar_date L (forecast_start_date w)) (fmt_scalar_date L (forecast_end_date w)))"

definition completion_zero_shot :: string where
  "completion_zero_shot = predicted_header"

definition fine_tuning_instruction ::
  "'v lib \<Rightarrow> string \<Rightarrow> string \<Rightarrow> 'v daily_row list \<Rightarrow> string" where
  "fine_tuning_instruction L name parameter hist =
     (let historical_context = historical_header @ render_rows L hist
      in ''You are an advanced forecasting system tasked with predicting daily air quality for ''
           @ name @ ''.'' @ nl
         @ ''The data includes daily mean values for '' @ quote @ parameter @ quote
           @ '' (in '' @ ug_m3 @ '').'' @ nl @ nl
         @ ''### Historical Data:'' @ nl @ historical_context @ nl @ nl
         @ ''### Instructions:'' @ nl
         @ ''1. Forecast daily mean '' @ quote @ parameter @ quote @ '' for each day.'' @ nl
         @ ''2. Provide output as a table:'' @ nl @ predicted_header)"

definition future_target :: "'v lib \<Rightarrow> 'v daily_row list \<Rightarrow> string" where
  "future_target L fut = predicted_header @ nl @ render_rows L fut"

text \<open>One iteration of the fine-tuning loop, for the index \<open>i\<close>.\<close>

definition fine_tuning_step ::
  "'v lib \<Rightarrow> 'v daily_row list \<Rightarrow> string \<Rightarrow> string \<Rightarrow> int \<Rightarrow> int \<Rightarrow> int \<Rightarrow> gen_state \<Rightarrow> gen_state" where
  "fine_tuning_step L daily name parameter history_length_days forecast_days i st =
     (let hist_start = i - history_length_days;
          hist_end = i;
          future_start = i;
          future_end = i + forecast_days;
          instr = fine_tuning_instruction L name parameter (py_slice daily hist_start hist_end);
          resp = future_target L (py_slice daily future_start future_end)
      in \<lparr>prompts = prompts st @ [InstructionResponse instr resp],
          output_list = output_list st @ [\<lparr>Prompt = instr, Completion = resp\<rparr>],
          prompt_count = prompt_count st + 1\<rparr>)"

text \<open>
  The generator. The common prefix runs for every \<open>prompt_type\<close>, and what it raises
  the call raises. \<open>range(a, b)\<close> is the list \<open>[a..b - 1]\<close>. The argument
  \<open>max_prompts_per_city\<close> and the counter \<open>prompt_count\<close> are carried as the source
  carries them; the function returns \<open>(output_list, prompts)\<close>.
\<close>

definition create_daily_forecast_prompts_v4 ::
  "'v lib \<Rightarrow> 'v frame \<Rightarrow> string \<Rightarrow> string \<Rightarrow> int \<Rightarrow> int \<Rightarrow> string \<Rightarrow> int option
     \<Rightarrow> error + prompt_record list \<times> prompt_entry list" where
  "create_daily_forecast_prompts_v4 L df name parameter history_length_days forecast_days
       prompt_type max_prompts_per_city =
     (case daily_data L df name parameter of
        Inl e \<Rightarrow> Inl e
      | Inr daily \<Rightarrow>
          (let st0 = \<lparr>prompts = [], output_list = [], prompt_count = 0\<rparr>
           in if prompt_type = ''zero-shot'' then
                (case zero_shot_window daily history_length_days forecast_days of
                   Inl e \<Rightarrow> Inl e
                 | Inr w \<Rightarrow>
                     (let instr = zero_shot_instruction L daily name parameter w;
                          st = \<lparr>prompts = prompts st0 @ [Instruction instr],
                                output_list = output_list st0
                                  @ [\<lparr>Prompt = instr, Completion = completion_zero_shot\<rparr>],
                                prompt_count = prompt_count st0 + 1\<rparr>
                      in Inr (output_list st, prompts st)))
              else if prompt_type = ''fine-tuning'' then
                (let st =
                   (if int (length daily) \<ge> history_length_days + forecast_days then
                      fold (fine_tuning_step L daily name parameter
                              history_length_days forecast_days)
                        [history_length_days .. int (length daily) - forecast_days + 1 - 1] st0
                    else st0)
                 in Inr (output_list st, prompts st))
              else Inr (output_list st0, prompts st0)))"

subsection \<open>The Stage 2 driver\<close>

text \<open>
  Object storage and the CSV reader, as parameters: each of the three calls in the
  \<open>try\<close> block of \<open>load_data_from_s3\<close> either returns or raises.
\<close>

record 'v storage =
  s3_get_object :: "string \<Rightarrow> string \<Rightarrow> error + string"
  decode_utf8 :: "string \<Rightarrow> error + string"
  read_csv :: "string \<Rightarrow> error + 'v frame"

definition load_data_from_s3 :: "'v storage \<Rightarrow> string \<Rightarrow> string \<Rightarrow> 'v frame option" where
  "load_data_from_s3 S s3_bucket_name s3_file_key =
     (case s3_get_object S s3_bucket_name s3_file_key of
        Inl e \<Rightarrow> None
      | Inr body \<Rightarrow>
          (case decode_utf8 S body of
             Inl e \<Rightarrow> None
           | Inr csv_content \<Rightarrow>
               (case read_csv S csv_content of
                  Inl e \<Rightarrow> None
                | Inr df \<Rightarrow> Some df)))"

definition parameter_to_use :: string where
  "parameter_to_use = ''value''"

definition history_length_days_forecast :: int where
  "history_length_days_forecast = 10"

definition forecast_window_days_forecast :: int where
  "forecast_window_days_forecast = 2"

definition max_prompts :: int where
  "max_prompts = 3"

text \<open>The two global lists of the driver.\<close>

record prompt_lists =
  all_zero_shot_prompts :: "prompt_record list"
  all_ft_prompts :: "prompt_record list"

definition s3_file_key_of :: "string \<Rightarrow> string \<Rightarrow> string" where
  "s3_file_key_of OUTPUT_FILE_KEY_PREFIX location = OUTPUT_FILE_KEY_PREFIX @ ''/'' @ location @ ''_data.csv''"

text \<open>
  The body of the loop over the cities. An exception of the generator is not caught: it
  ends the run.
\<close>

definition process_location ::
  "'v lib \<Rightarrow> 'v storage \<Rightarrow> string \<Rightarrow> string \<Rightarrow> string \<Rightarrow> prompt_lists
     \<Rightarrow> error + prompt_lists" where
  "process_location L S s3_bucket_name OUTPUT_FILE_KEY_PREFIX location acc =
     (case load_data_from_s3 S s3_bucket_name (s3_file_key_of OUTPUT_FILE_KEY_PREFIX location) of
        None \<Rightarrow> Inr acc
      | Some df_hourly \<Rightarrow>
          (case create_daily_forecast_prompts_v4 L df_hourly location
                  parameter_to_use history_length_days_forecast forecast_window_days_forecast
                  ''zero-shot'' (Some max_prompts) of
             Inl e \<Rightarrow> Inl e
           | Inr zs \<Rightarrow>
               (let acc1 = acc\<lparr>all_zero_shot_prompts := all_zero_shot_prompts acc @ fst zs\<rparr>
                in case create_daily_forecast_prompts_v4 L df_hourly location
                          parameter_to_use history_length_days_forecast
                          forecast_window_days_forecast ''fine-tuning'' (Some max_prompts) of
                     Inl e \<Rightarrow> Inl e
                   | Inr ft \<Rightarrow>
                       Inr (acc1\<lparr>all_ft_prompts := all_ft_prompts acc1 @ fst ft\<rparr>))))"

fun process_locations ::
  "'v lib \<Rightarrow> 'v storage \<Rightarrow> string \<Rightarrow> string \<Rightarrow> string list \<Rightarrow> prompt_lists
     \<Rightarrow> error + prompt_lists" where
  "process_locations L S s3_bucket_name OUTPUT_FILE_KEY_PREFIX [] acc = Inr acc"
| "process_locations L S s3_bucket_name OUTPUT_FILE_KEY_PREFIX (location # locations_list) acc =
     (case process_location L S s3_bucket_name OUTPUT_FILE_KEY_PREFIX location acc of
        Inl e \<Rightarrow> Inl e
      | Inr acc' \<Rightarrow> process_locations L S s3_bucket_name OUTPUT_FILE_KEY_PREFIX locations_list acc')"

text \<open>
  The driver: the city names are the keys of the configuration, in its order. When
  loading the configuration raises, the handler prints and the loop then reads the
  unbound \<open>locations_list\<close>. The result is the pair of lists written as JSON.
\<close>

definition main_stage2 ::
  "'v lib \<Rightarrow> 'v storage \<Rightarrow> string \<Rightarrow> string \<Rightarrow> (error + (string \<times> 'b) list)
     \<Rightarrow> error + prompt_lists" where
  "main_stage2 L S s3_bucket_name OUTPUT_FILE_KEY_PREFIX city_config =
     (case city_config of
        Inl e \<Rightarrow> Inl NameError
      | Inr config \<Rightarrow>
          process_locations L S s3_bucket_name OUTPUT_FILE_KEY_PREFIX (map fst config)
            \<lparr>all_zero_shot_prompts = [], all_ft_prompts = []\<rparr>)"

section \<open>Stage 1: ingestion (1_data_ingest.py)\<close>

subsection \<open>Values\<close>

text \<open>
  The values of a decoded JSON document and of a DataFrame cell. \<open>PNone\<close> is JSON's
  null in a document and the missing value (NaN, NaT) in a cell. A dictionary with
  string keys is an association list, read from the front. Numbers are integers.
\<close>

datatype pyval =
  PNone | PBool bool | PInt int | PStr string | PList "pyval list"
| PDict "(string \<times> pyval) list"

text \<open>\<open>d.get(key, default)\<close>: only a dictionary has the method.\<close>

fun dict_get :: "pyval \<Rightarrow> string \<Rightarrow> pyval \<Rightarrow> error + pyval" where
  "dict_get (PDict kvs) key dflt = Inr (case map_of kvs key of None \<Rightarrow> dflt | Some v \<Rightarrow> v)"
| "dict_get _ key dflt = Inl AttributeError"

text \<open>\<open>d[key]\<close> with a string key.\<close>

fun subscript :: "pyval \<Rightarrow> string \<Rightarrow> error + pyval" where
  "subscript (PDict kvs) key = (case map_of kvs key of None \<Rightarrow> Inl KeyError | Some v \<Rightarrow> Inr v)"
| "subscript _ key = Inl TypeError"

text \<open>What a \<open>for\<close> loop over a value visits.\<close>

fun py_iter :: "pyval \<Rightarrow> error + pyval list" where
  "py_iter (PList xs) = Inr xs"
| "py_iter (PDict kvs) = Inr (map (\<lambda>kv. PStr (fst kv)) kvs)"
| "py_iter (PStr s) = Inr (map (\<lambda>c. PStr [c]) s)"
| "py_iter _ = Inl TypeError"

fun hashable :: "pyval \<Rightarrow> bool" where
  "hashable (PList xs) = False"
| "hashable (PDict kvs) = False"
| "hashable _ = True"

subsection \<open>The metadata fetcher\<close>

record http_response =
  status_code :: nat
  json_body :: "pyval option"

definition raise_for_status :: "http_response \<Rightarrow> error + unit" where
  "raise_for_status resp =
     (if 400 \<le> status_code resp \<and> status_code resp < 600 then Inl HTTPError else Inr ())"

text \<open>
  \<open>extract_metadata_fields\<close> returns a dictionary with four keys; \<open>country\<close> and
  \<open>provider\<close> are read through a second \<open>get\<close>.
\<close>

definition nested_name :: "pyval \<Rightarrow> string \<Rightarrow> error + pyval" where
  "nested_name metadata key =
     (case dict_get metadata key (PDict []) of
        Inl e \<Rightarrow> Inl e
      | Inr inner \<Rightarrow> dict_get inner ''name'' (PStr ''''))"

definition extract_metadata_fields :: "pyval \<Rightarrow> error + pyval" where
  "extract_metadata_fields metadata =
     (case dict_get metadata ''id'' (PStr '''') of
        Inl e \<Rightarrow> Inl e
      | Inr id_value \<Rightarrow>
     (case dict_get metadata ''name'' (PStr '''') of
        Inl e \<Rightarrow> Inl e
      | Inr name_value \<Rightarrow>
     (case nested_name metadata ''country'' of
        Inl e \<Rightarrow> Inl e
      | Inr country_value \<Rightarrow>
     (case nested_name metadata ''provider'' of
        Inl e \<Rightarrow> Inl e
      | Inr provider_value \<Rightarrow>
          Inr (PDict [(''location_id'', id_value), (''location_name'', name_value),
                      (''country'', country_value), (''provider'', provider_value)])))))"

text \<open>
  The mapping from identifier to metadata is a dictionary with arbitrary hashable keys:
  an association list in insertion order, where storing under a key already present
  replaces the value in place. Keys are compared structurally.
\<close>

type_synonym metadata_map = "(pyval \<times> pyval) list"

fun build_metadata :: "pyval list \<Rightarrow> metadata_map \<Rightarrow> error + metadata_map" where
  "build_metadata [] metadata = Inr metadata"
| "build_metadata (location # rest) metadata =
     (case subscript location ''id'' of
        Inl e \<Rightarrow> Inl e
      | Inr location_id \<Rightarrow>
          (case extract_metadata_fields location of
             Inl e \<Rightarrow> Inl e
           | Inr entry \<Rightarrow>
               if hashable location_id
               then build_metadata rest (AList.update location_id entry metadata)
               else Inl TypeError))"

text \<open>The request is a parameter: it maps the bounding box and the API key to a response.\<close>

definition get_location_metadata ::
  "('bbox \<Rightarrow> string \<Rightarrow> http_response) \<Rightarrow> string \<Rightarrow> 'bbox \<Rightarrow> string \<Rightarrow> error + metadata_map" where
  "get_location_metadata requests_get city bbox api_key =
     (let resp = requests_get bbox api_key
      in case raise_for_status resp of
           Inl e \<Rightarrow> Inl e
         | Inr u \<Rightarrow>
             (case json_body resp of
                None \<Rightarrow> Inl JSONDecodeError
              | Some doc \<Rightarrow>
                  (case dict_get doc ''results'' (PList []) of
                     Inl e \<Rightarrow> Inl e
                   | Inr location_data \<Rightarrow>
                       (case py_iter location_data of
                          Inl e \<Rightarrow> Inl e
                        | Inr locations \<Rightarrow> build_metadata locations []))))"

subsection \<open>The archive downloader\<close>

text \<open>
  The public bucket and the formatting of dates and identifiers, as parameters:
  \<open>list_objects_v2\<close> maps a prefix to the keys under \<open>Contents\<close>, or to \<open>None\<close> when
  the response has no \<open>Contents\<close> entry; \<open>get_object\<close> maps a key to the rows of the
  decompressed, parsed file.
\<close>

record ('l, 'r) archive =
  str_location :: "'l \<Rightarrow> string"
  strftime_Y :: "date \<Rightarrow> string"
  strftime_m :: "date \<Rightarrow> string"
  strftime_d :: "date \<Rightarrow> string"
  list_objects_v2 :: "string \<Rightarrow> string list option"
  get_object :: "string \<Rightarrow> 'r list"

record ('l, 'r) download_state =
  consolidated_df :: "'r list"
  failed_locations :: "'l list"

definition endswith :: "string \<Rightarrow> string \<Rightarrow> bool" where
  "endswith key suffix =
     (length suffix \<le> length key \<and> drop (length key - length suffix) key = suffix)"

definition generate_date_range :: "date \<Rightarrow> date \<Rightarrow> date list" where
  "generate_date_range start_date end_date = [start_date .. end_date]"

text \<open>The loop over the listed objects of one month.\<close>

definition process_object :: "('l, 'r) archive \<Rightarrow> string \<Rightarrow> string \<Rightarrow> 'r list \<Rightarrow> 'r list" where
  "process_object A suffix key df =
     (if endswith key suffix then df @ get_object A key else df)"

text \<open>The body of the inner loop: one location and one day.\<close>

definition process_day ::
  "('l, 'r) archive \<Rightarrow> 'l \<Rightarrow> date \<Rightarrow> ('l, 'r) download_state \<Rightarrow> ('l, 'r) download_state" where
  "process_day A location_id d st =
     (let year = strftime_Y A d; month = strftime_m A d; day = strftime_d A d;
          prefix = ''records/csv.gz/locationid='' @ str_location A location_id
                     @ ''/year='' @ year @ ''/month='' @ month @ ''/''
      in case list_objects_v2 A prefix of
           Some contents \<Rightarrow>
             st\<lparr>consolidated_df :=
                  fold (process_object A (year @ month @ day @ ''.csv.gz'')) contents
                    (consolidated_df st)\<rparr>
         | None \<Rightarrow> st\<lparr>failed_locations := failed_locations st @ [location_id]\<rparr>)"

definition process_location_id ::
  "('l, 'r) archive \<Rightarrow> date \<Rightarrow> date \<Rightarrow> 'l \<Rightarrow> ('l, 'r) download_state \<Rightarrow> ('l, 'r) download_state" where
  "process_location_id A start_date end_date location_id st =
     fold (process_day A location_id) (generate_date_range start_date end_date) st"

text \<open>
  The downloader returns \<open>consolidated_df\<close>; \<open>failed_locations\<close> is printed. The model
  returns the final state, which holds both.
\<close>

definition download_data_to_dataframe ::
  "('l, 'r) archive \<Rightarrow> 'l list \<Rightarrow> date \<Rightarrow> date \<Rightarrow> ('l, 'r) download_state" where
  "download_data_to_dataframe A location_ids start_date end_date =
     fold (process_location_id A start_date end_date) location_ids
       \<lparr>consolidated_df = [], failed_locations = []\<rparr>"

subsection \<open>The date window of the driver\<close>

text \<open>
  The first lines of \<open>main\<close>. The environment is a map from names to strings;
  \<open>int\<close> on a string and \<open>strptime\<close> are parameters that return \<open>None\<close> where the
  library raises ValueError. The end date is a day number, and subtracting
  \<open>timedelta(days=k)\<close> subtracts \<open>k\<close>.
\<close>

definition getenv :: "(string \<rightharpoonup> string) \<Rightarrow> string \<Rightarrow> 'a \<Rightarrow> (string \<Rightarrow> 'a) \<Rightarrow> 'a" where
  "getenv env name dflt of_string = (case env name of None \<Rightarrow> dflt | Some s \<Rightarrow> of_string s)"

definition main_date_window ::
  "(string \<Rightarrow> int option) \<Rightarrow> (string \<Rightarrow> date option) \<Rightarrow> (string \<rightharpoonup> string)
     \<Rightarrow> error + (date \<times> date)" where
  "main_date_window int_of_string strptime env =
     (let END_DATE_STRING = getenv env ''END_DATE'' ''31/12/2023 23:59:59 +0530'' id
      in case getenv env ''NUMBER_OF_DAYS'' (Some 10) int_of_string of
           None \<Rightarrow> Inl ValueError
         | Some NUMBER_OF_DAYS_env \<Rightarrow>
             (let NUMBER_OF_DAYS = (30 :: int)
              in case strptime END_DATE_STRING of
                   None \<Rightarrow> Inl ValueError
                 | Some end_date \<Rightarrow>
                     (let start_date = end_date - NUMBER_OF_DAYS
                      in Inr (start_date, end_date))))"

subsection \<open>Data frames\<close>

text \<open>
  A DataFrame is its list of column labels and its rows, each row a list of cells in
  the order of the labels. Labels may repeat.
\<close>

record dataframe =
  columns :: "string list"
  rows :: "pyval list list"

definition wf_df :: "dataframe \<Rightarrow> bool" where
  "wf_df df = list_all (\<lambda>r. length r = length (columns df)) (rows df)"

text \<open>
  \<open>df[name]\<close> as a Series: KeyError without such a column; with a repeated label the
  result is a DataFrame, on which \<open>pd.to_datetime\<close> and the assignment of a mapped
  frame to one column raise ValueError.
\<close>

definition column_positions :: "string \<Rightarrow> string list \<Rightarrow> nat list" where
  "column_positions name cols = filter (\<lambda>i. cols ! i = name) [0..<length cols]"

definition get_column :: "string \<Rightarrow> dataframe \<Rightarrow> error + pyval list" where
  "get_column name df =
     (case column_positions name (columns df) of
        [] \<Rightarrow> Inl KeyError
      | [i] \<Rightarrow> Inr (map (\<lambda>r. r ! i) (rows df))
      | _ \<Rightarrow> Inl ValueError)"

text \<open>
  \<open>df[name] = values\<close>: every column with this label takes the new values; without
  such a column a new one is appended.
\<close>

definition set_cell :: "string list \<Rightarrow> string \<Rightarrow> pyval list \<Rightarrow> pyval \<Rightarrow> pyval list" where
  "set_cell cols name r v =
     (if name \<in> set cols then map2 (\<lambda>c x. if c = name then v else x) cols r else r @ [v])"

definition set_column :: "string \<Rightarrow> pyval list \<Rightarrow> dataframe \<Rightarrow> dataframe" where
  "set_column name vals df =
     \<lparr>columns = (if name \<in> set (columns df) then columns df else columns df @ [name]),
      rows = map2 (set_cell (columns df) name) (rows df) vals\<rparr>"

subsection \<open>Enrichment\<close>

text \<open>
  \<open>metadata.get(location_id, {}).get(field, "")\<close> for one cell of the identifier
  column. A missing cell is NaN, which equals no key.
\<close>

definition metadata_field :: "metadata_map \<Rightarrow> string \<Rightarrow> pyval \<Rightarrow> error + pyval" where
  "metadata_field metadata field location_id =
     (if \<not> hashable location_id then Inl TypeError
      else case (if location_id = PNone then None else map_of metadata location_id) of
             None \<Rightarrow> dict_get (PDict []) field (PStr '''')
           | Some entry \<Rightarrow> dict_get entry field (PStr ''''))"

definition map_location_id :: "dataframe \<Rightarrow> metadata_map \<Rightarrow> string \<Rightarrow> error + dataframe" where
  "map_location_id data_df metadata field =
     (case get_column ''location_id'' data_df of
        Inl e \<Rightarrow> Inl e
      | Inr ids \<Rightarrow>
          (case series_map (metadata_field metadata field) ids of
             Inl e \<Rightarrow> Inl e
           | Inr vals \<Rightarrow> Inr (set_column field vals data_df)))"

definition enrich_data_with_metadata :: "dataframe \<Rightarrow> metadata_map \<Rightarrow> error + dataframe" where
  "enrich_data_with_metadata data_df metadata =
     (case map_location_id data_df metadata ''location_name'' of
        Inl e \<Rightarrow> Inl e
      | Inr df1 \<Rightarrow> map_location_id df1 metadata ''provider'')"

subsection \<open>Transformation\<close>






subsection \<open>Well-formed responses\<close>

text \<open>
  A location object as the API documents it: a dictionary with a hashable \<open>id\<close>, whose
  \<open>country\<close> and \<open>provider\<close>, when present, are dictionaries. For such an object
  \<open>location_key\<close> is its identifier and \<open>location_entry\<close> the record that
  \<open>extract_metadata_fields\<close> builds.
\<close>

fun is_dict :: "pyval \<Rightarrow> bool" where
  "is_dict (PDict kvs) = True"
| "is_dict _ = False"

definition dict_or_absent :: "(string \<times> pyval) list \<Rightarrow> string \<Rightarrow> bool" where
  "dict_or_absent kvs key = (case map_of kvs key of None \<Rightarrow> True | Some v \<Rightarrow> is_dict v)"

fun wf_location :: "pyval \<Rightarrow> bool" where
  "wf_location (PDict kvs) =
     ((case map_of kvs ''id'' of None \<Rightarrow> False | Some i \<Rightarrow> hashable i)
      \<and> dict_or_absent kvs ''country'' \<and> dict_or_absent kvs ''provider'')"
| "wf_location _ = False"

definition location_key :: "pyval \<Rightarrow> pyval" where
  "location_key location = (case subscript location ''id'' of Inr i \<Rightarrow> i | Inl e \<Rightarrow> PNone)"

definition location_entry :: "pyval \<Rightarrow> pyval" where
  "location_entry location =
     (case extract_metadata_fields location of Inr entry \<Rightarrow> entry | Inl e \<Rightarrow> PNone)"

definition location_pair :: "pyval \<Rightarrow> pyval \<times> pyval" where
  "location_pair location = (location_key location, location_entry location)"

text \<open>
  The cell that enrichment is to write for an identifier: the empty string when the
  identifier is missing or is no key of the mapping, and otherwise the field of the
  mapped record, with the empty string for a field the record lacks.
\<close>

definition enriched_cell :: "metadata_map \<Rightarrow> string \<Rightarrow> pyval \<Rightarrow> pyval" where
  "enriched_cell metadata field location_id =
     (case (if location_id = PNone then None else map_of metadata location_id) of
        None \<Rightarrow> PStr ''''
      | Some entry \<Rightarrow> (case dict_get entry field (PStr '''') of Inr v \<Rightarrow> v | Inl e \<Rightarrow> PNone))"


text \<open>
  What one pair of a location and a day adds to the two lists of the downloader: the rows
  of the listed objects that end in the day's file name, and the location itself when
  the listing has no \<open>Contents\<close>. A pair has no matching object when the listing is
  empty or none of its keys ends in the day's file name.
\<close>

definition pair_prefix :: "('l, 'r) archive \<Rightarrow> 'l \<Rightarrow> date \<Rightarrow> string" where
  "pair_prefix A l d =
     ''records/csv.gz/locationid='' @ str_location A l
       @ ''/year='' @ strftime_Y A d @ ''/month='' @ strftime_m A d @ ''/''"

definition pair_suffix :: "('l, 'r) archive \<Rightarrow> date \<Rightarrow> string" where
  "pair_suffix A d = strftime_Y A d @ strftime_m A d @ strftime_d A d @ ''.csv.gz''"

definition rows_of_pair :: "('l, 'r) archive \<Rightarrow> 'l \<Rightarrow> date \<Rightarrow> 'r list" where
  "rows_of_pair A l d =
     (case list_objects_v2 A (pair_prefix A l d) of
        None \<Rightarrow> []
      | Some contents \<Rightarrow>
          concat (map (get_object A) (filter (\<lambda>key. endswith key (pair_suffix A d)) contents)))"

definition failed_of_pair :: "('l, 'r) archive \<Rightarrow> 'l \<Rightarrow> date \<Rightarrow> 'l list" where
  "failed_of_pair A l d =
     (case list_objects_v2 A (pair_prefix A l d) of None \<Rightarrow> [l] | Some contents \<Rightarrow> [])"

definition no_matching_object :: "('l, 'r) archive \<Rightarrow> 'l \<Rightarrow> date \<Rightarrow> bool" where
  "no_matching_object A l d =
     (case list_objects_v2 A (pair_prefix A l d) of
        None \<Rightarrow> True
      | Some contents \<Rightarrow> list_all (\<lambda>key. \<not> endswith key (pair_suffix A d)) contents)"

text \<open>
  The zero-shot dates are in range when both time differences exist and, for a
  non-empty table with latest day \<open>latest\<close>, the three computed days are dates.
\<close>

definition is_date :: "date \<Rightarrow> bool" where
  "is_date d \<longleftrightarrow> date_min \<le> d \<and> d \<le> date_max"

definition window_in_range :: "'v daily_row list \<Rightarrow> int \<Rightarrow> int \<Rightarrow> bool" where
  "window_in_range daily h f \<longleftrightarrow>
     - 106751 \<le> h - 1 \<and> h - 1 \<le> 106751 \<and> - 106751 \<le> f - 1 \<and> f - 1 \<le> 106751
     \<and> (daily \<noteq> [] \<longrightarrow>
           is_date (Max (set (map date daily)) - (h - 1))
         \<and> is_date (Max (set (map date daily)) + 1)
         \<and> is_date (Max (set (map date daily)) + f))"

section \<open>Concrete inputs\<close>

text \<open>Inputs on which the theorems below are instantiated.\<close>

text \<open>
  A library for readings that are whole numbers below 100 on days of January 2023 (day
  19358 is the first of January): the timestamp of a numeric cell is the cell, a string
  cell is rejected and a missing one is NaT; the mean is the rounded-down mean of the
  numeric cells and raises on a string cell.
\<close>

definition digit :: "nat \<Rightarrow> char" where
  "digit n = ''0123456789'' ! n"

definition two_digits :: "nat \<Rightarrow> string" where
  "two_digits n = [digit (n div 10), digit (n mod 10)]"

fun example_stamp :: "int cell \<Rightarrow> error + int option" where
  "example_stamp (Number t) = Inr (Some t)"
| "example_stamp Missing = Inr None"
| "example_stamp (Text s) = Inl ValueError"

fun cell_numbers :: "int cell list \<Rightarrow> error + int list" where
  "cell_numbers [] = Inr []"
| "cell_numbers (Number v # cs) = (case cell_numbers cs of Inl e \<Rightarrow> Inl e | Inr vs \<Rightarrow> Inr (v # vs))"
| "cell_numbers (Missing # cs) = cell_numbers cs"
| "cell_numbers (Text s # cs) = Inl TypeError"

definition example_mean :: "int cell list \<Rightarrow> error + int option" where
  "example_mean cs =
     (case cell_numbers cs of
        Inl e \<Rightarrow> Inl e
      | Inr [] \<Rightarrow> Inr None
      | Inr (v # vs) \<Rightarrow> Inr (Some (sum_list (v # vs) div int (length (v # vs)))))"

definition example_lib :: "int lib" where
  "example_lib =
     \<lparr>pd_to_datetime = series_map example_stamp,
      pd_mean = example_mean,
      fmt_2f = (\<lambda>v. two_digits (nat v) @ ''.00''),
      fmt_date = (\<lambda>d. ''2023-01-'' @ two_digits (nat (d - 19357)))\<rparr>"

text \<open>
  One reading per day at 01:00 at location X, for the first \<open>days\<close> days of January
  2023; the readings are 10, 11, and so on.
\<close>

definition example_row :: "int \<Rightarrow> string \<Rightarrow> int cell" where
  "example_row i label =
     (if label = ''datetime'' then Number (86400 * (19358 + i) + 3600)
      else if label = ''location_name'' then Text ''X''
      else if label = ''value'' then Number (10 + i)
      else Missing)"

definition example_df :: "int \<Rightarrow> int frame" where
  "example_df days =
     \<lparr>labels = [''datetime'', ''location_name'', ''value''],
      frame_rows = map example_row [0 .. days - 1]\<rparr>"

text \<open>
  The same three days with a second row whose \<open>datetime\<close> cell is no date, and a frame
  without a \<open>datetime\<close> column.
\<close>

definition example_unparseable_row :: "string \<Rightarrow> int cell" where
  "example_unparseable_row label =
     (if label = ''datetime'' then Text ''not available''
      else if label = ''location_name'' then Text ''X''
      else if label = ''value'' then Number 12
      else Missing)"

definition example_df_unparseable :: "int frame" where
  "example_df_unparseable =
     \<lparr>labels = [''datetime'', ''location_name'', ''value''],
      frame_rows = [example_row 0, example_unparseable_row, example_row 2]\<rparr>"


text \<open>A store that holds the artifact of city X only.\<close>

definition example_storage :: "int storage" where
  "example_storage =
     \<lparr>s3_get_object = (\<lambda>bucket key. if key = ''out/X_data.csv'' then Inr ''csv'' else Inl StorageError),
      decode_utf8 = (\<lambda>body. Inr body),
      read_csv = (\<lambda>csv_content. Inr (example_df 12))\<rparr>"

text \<open>
  An archive that holds, for location 1, the file of 30 December 2023 (day 19721) and no
  file of 31 December 2023 (day 19722).
\<close>

definition example_archive :: "(nat, string) archive" where
  "example_archive =
     \<lparr>str_location = (\<lambda>l. if l = 1 then ''1'' else ''0''),
      strftime_Y = (\<lambda>d. ''2023''),
      strftime_m = (\<lambda>d. ''12''),
      strftime_d = (\<lambda>d. if d = 19722 then ''31'' else ''30''),
      list_objects_v2 = (\<lambda>prefix.
         if prefix = ''records/csv.gz/locationid=1/year=2023/month=12/''
         then Some [''records/csv.gz/locationid=1/year=2023/month=12/location-1-20231230.csv.gz'']
         else None),
      get_object = (\<lambda>key. [''row of '' @ key])\<rparr>"

text \<open>Parsers that know the two numbers and the one date of the example.\<close>

definition example_int :: "string \<Rightarrow> int option" where
  "example_int s = (if s = ''10'' then Some 10 else if s = ''20'' then Some 20 else None)"

definition example_strptime :: "string \<Rightarrow> date option" where
  "example_strptime s = (if s = ''31/12/2023 23:59:59 +0530'' then Some 19722 else None)"

text \<open>
  Two responses with status 200: one whose only result has no \<open>id\<close>, and one with two
  well-formed results.
\<close>

definition example_response_no_id :: http_response where
  "example_response_no_id =
     \<lparr>status_code = 200,
      json_body = Some (PDict [(''results'', PList [PDict [(''name'', PStr ''Station'')]])])\<rparr>"

definition example_locations :: "pyval list" where
  "example_locations =
     [PDict [(''id'', PInt 7), (''name'', PStr ''North''),
             (''country'', PDict [(''name'', PStr ''India'')]),
             (''provider'', PDict [(''name'', PStr ''CPCB'')])],
      PDict [(''id'', PInt 9), (''name'', PStr ''South'')]]"

definition example_response :: http_response where
  "example_response =
     \<lparr>status_code = 200, json_body = Some (PDict [(''results'', PList example_locations)])\<rparr>"

definition example_metadata :: metadata_map where
  "example_metadata =
     [(PInt 7, PDict [(''location_id'', PInt 7), (''location_name'', PStr ''North''),
                      (''country'', PStr ''India''), (''provider'', PStr ''CPCB'')]),
      (PInt 9, PDict [(''location_id'', PInt 9), (''location_name'', PStr ''South''),
                      (''country'', PStr ''''), (''provider'', PStr '''')])]"

definition example_request_no_id :: "unit \<Rightarrow> string \<Rightarrow> http_response" where
  "example_request_no_id bbox api_key = example_response_no_id"

definition example_request :: "unit \<Rightarrow> string \<Rightarrow> http_response" where
  "example_request bbox api_key = example_response"

text \<open>Three measurement rows: a known station, an unknown one, and a missing identifier.\<close>

definition example_frame :: dataframe where
  "example_frame =
     \<lparr>columns = [''location_id'', ''value''],
      rows = [[PInt 7, PInt 12], [PInt 8, PInt 5], [PNone, PInt 3]]\<rparr>"









section \<open>Properties of the prompt generator\<close>

subsection \<open>Auxiliary facts\<close>

lemma fold_fine_tuning_step_output:
  "output_list (fold (fine_tuning_step L daily name parameter h f) is st) =
     output_list st @ map (\<lambda>i. \<lparr>Prompt = fine_tuning_instruction L name parameter (py_slice daily (i - h) i),
                                 Completion = future_target L (py_slice daily i (i + f))\<rparr>) is"
  by (induction "is" arbitrary: st) (simp_all add: fine_tuning_step_def Let_def)

lemma fold_fine_tuning_step_prompts:
  "prompts (fold (fine_tuning_step L daily name parameter h f) is st) =
     prompts st @ map (\<lambda>i. InstructionResponse (fine_tuning_instruction L name parameter (py_slice daily (i - h) i))
                                 (future_target L (py_slice daily i (i + f)))) is"
  by (induction "is" arbitrary: st) (simp_all add: fine_tuning_step_def Let_def)

lemma map_upto_shift:
  "map g [a..b] = map (\<lambda>k. g (a + int k)) [0..<nat (b - a + 1)]"
  by (rule nth_equalityI) simp_all

lemma py_slice_window:
  assumes "k + w \<le> length xs"
  shows "py_slice xs (int k) (int k + int w) = take w (drop k xs)"
proof -
  have "nat (int k + int w) = k + w" by simp
  then show ?thesis
    using assms by (simp add: py_slice_def slice_bound_def Let_def min_def del: of_nat_add)
qed

lemma date_dropna_daily_subset:
  "set (map date (dropna_daily xs)) \<subseteq> set (map fst xs)"
  by (induction xs rule: dropna_daily.induct) auto

lemma strict_sorted_dropna_daily:
  "sorted_wrt (<) (map fst xs) \<Longrightarrow> sorted_wrt (<) (map date (dropna_daily xs))"
proof (induction xs rule: dropna_daily.induct)
  case (3 d v xs)
  then show ?case using date_dropna_daily_subset [of xs] by fastforce
qed simp_all

lemma strict_sorted_upto: "sorted_wrt (<) [a..b::int]"
  by (simp add: strict_sorted_iff)

lemma series_map_labelled:
  assumes "series_map (\<lambda>d. case g d of Inl e \<Rightarrow> Inl e | Inr m \<Rightarrow> Inr (d, m)) ds = Inr ys"
  shows "map fst ys = ds"
  using assms
  by (induction ds arbitrary: ys) (auto split: sum.splits)

lemma map_fst_resample:
  assumes "resample_D_mean L parameter rs = Inr binned"
  shows "\<exists>a b. map fst binned = [a..b]"
proof (cases "rs = []")
  case True
  with assms have "binned = []" by (simp add: resample_D_mean_def)
  then have "map fst binned = [1..0::int]" by simp
  then show ?thesis by blast
next
  case False
  with assms obtain t ts where "List.map_filter fst rs = t # ts"
    and "series_map (\<lambda>d. case day_mean L parameter rs d of Inl e \<Rightarrow> Inl e | Inr m \<Rightarrow> Inr (d, m))
           [date_of t .. date_of (last (t # ts))] = Inr binned"
    by (auto simp: resample_D_mean_def split: list.splits)
  then have "map fst binned = [date_of t .. date_of (last (t # ts))]"
    using series_map_labelled by blast
  then show ?thesis by blast
qed

lemma strict_sorted_daily_data:
  assumes "daily_data L df name parameter = Inr daily"
  shows "sorted_wrt (<) (map date daily)"
proof -
  from assms obtain rs binned where "resample_D_mean L parameter rs = Inr binned"
    and daily: "daily = dropna_daily binned"
    by (auto simp: daily_data_def split: sum.splits if_splits)
  then obtain a b where "map fst binned = [a..b]"
    using map_fst_resample by blast
  then have "sorted_wrt (<) (map fst binned)"
    by (simp add: strict_sorted_upto)
  then show ?thesis
    unfolding daily by (rule strict_sorted_dropna_daily)
qed

lemma prefix_error:
  assumes "daily_data L df name parameter = Inl e"
  shows "create_daily_forecast_prompts_v4 L df name parameter h f prompt_type m = Inl e"
  using assms by (simp add: create_daily_forecast_prompts_v4_def)

lemma fine_tuning_output:
  assumes "daily_data L df name parameter = Inr daily"
  shows "create_daily_forecast_prompts_v4 L df name parameter h f ''fine-tuning'' m =
     Inr (if int (length daily) < h + f then []
          else map (\<lambda>k. \<lparr>Prompt = fine_tuning_instruction L name parameter
                                     (py_slice daily (int k) (int k + h)),
                          Completion = future_target L
                                     (py_slice daily (int k + h) (int k + h + f))\<rparr>)
                 [0..<nat (int (length daily) - f + 1 - h)],
          if int (length daily) < h + f then []
          else map (\<lambda>k. InstructionResponse
                           (fine_tuning_instruction L name parameter
                              (py_slice daily (int k) (int k + h)))
                           (future_target L (py_slice daily (int k + h) (int k + h + f))))
                 [0..<nat (int (length daily) - f + 1 - h)])"
  using assms
  by (simp add: create_daily_forecast_prompts_v4_def Let_def fold_fine_tuning_step_output
      fold_fine_tuning_step_prompts map_upto_shift [of _ h] add.commute add.left_commute
      algebra_simps)


lemma fold_max_Max: "fold max ds (d::int) = Max (set (d # ds))"
  by (rule Max.set_eq_fold [symmetric])

lemma series_max_nonempty:
  assumes "ds \<noteq> []"
  shows "series_max ds = Day (Max (set ds))"
proof (cases ds)
  case Nil
  then show ?thesis using assms by simp
next
  case (Cons d ds')
  then show ?thesis by (simp only: series_max.simps fold_max_Max)
qed

lemma zero_shot_window_nonempty:
  assumes "daily \<noteq> []" and "window_in_range daily h f"
  shows "zero_shot_window daily h f =
     Inr \<lparr>start_historical_date = Day (Max (set (map date daily)) - (h - 1)),
          end_historical_date = Day (Max (set (map date daily))),
          forecast_start_date = Day (Max (set (map date daily)) + 1),
          forecast_end_date = Day (Max (set (map date daily)) + f)\<rparr>"
proof -
  have "map date daily \<noteq> []"
    using assms(1) by simp
  then have mx: "series_max (map date daily) = Day (Max (set (map date daily)))"
    by (rule series_max_nonempty)
  have shift: "\<And>x::int. x + (1 - h) = x - (h - 1)" "\<And>x::int. x + 1 + (f - 1) = x + f"
    by simp_all
  show ?thesis
    using assms
    by (simp add: zero_shot_window_def window_in_range_def is_date_def Timedelta_def mx Let_def shift)
qed

lemma zero_shot_window_empty:
  assumes "window_in_range [] h f"
  shows "zero_shot_window [] h f =
     Inr \<lparr>start_historical_date = NaT, end_historical_date = NaN,
          forecast_start_date = NaT, forecast_end_date = NaT\<rparr>"
  using assms by (simp add: zero_shot_window_def window_in_range_def Timedelta_def)

lemma plus_days_error: "plus_days s k = Inl e \<Longrightarrow> e = OverflowError"
  by (cases s) (auto split: if_splits)

lemma Timedelta_error: "Timedelta k = Inl e \<Longrightarrow> e = OverflowError"
  by (auto simp: Timedelta_def split: if_splits)

lemma zero_shot_window_error:
  assumes "zero_shot_window daily h f = Inl e"
  shows "e = OverflowError"
  using assms
  by (auto simp: zero_shot_window_def Let_def split: sum.splits
      dest: plus_days_error Timedelta_error)

lemma zero_shot_window_out_of_range:
  assumes "\<not> window_in_range daily h f"
  shows "zero_shot_window daily h f = Inl OverflowError"
proof (cases "zero_shot_window daily h f")
  case (Inl e)
  then show ?thesis using zero_shot_window_error by blast
next
  case (Inr w)
  have t1: "- 106751 \<le> h - 1 \<and> h - 1 \<le> 106751"
    using Inr by (auto simp: zero_shot_window_def Timedelta_def Let_def split: if_splits sum.splits)
  have t2: "- 106751 \<le> f - 1 \<and> f - 1 \<le> 106751"
    using Inr by (auto simp: zero_shot_window_def Timedelta_def Let_def split: if_splits sum.splits)
  have "is_date (Max (set (map date daily)) - (h - 1))
         \<and> is_date (Max (set (map date daily)) + 1)
         \<and> is_date (Max (set (map date daily)) + f)" if ne: "daily \<noteq> []"
  proof -
    have "map date daily \<noteq> []"
      using ne by simp
    then have mx: "series_max (map date daily) = Day (Max (set (map date daily)))"
      by (rule series_max_nonempty)
    have shift: "\<And>x::int. x + (1 - h) = x - (h - 1)" "\<And>x::int. x + 1 + (f - 1) = x + f"
      by simp_all
    show ?thesis
      using Inr t1 t2
      by (auto simp: zero_shot_window_def Timedelta_def Let_def mx is_date_def shift
          split: if_splits sum.splits)
  qed
  with t1 t2 have "window_in_range daily h f"
    by (simp add: window_in_range_def)
  with assms show ?thesis by simp
qed

lemma historical_data_window:
  assumes "sorted_wrt (<) (map date daily)"
  shows "zero_shot_historical_data daily
           \<lparr>start_historical_date = Day a, end_historical_date = Day b,
            forecast_start_date = s, forecast_end_date = e\<rparr>
       = filter (\<lambda>row. a \<le> date row \<and> date row \<le> b) daily"
proof -
  have "sorted (map date daily)"
    using assms by (simp add: strict_sorted_iff)
  then have "sorted (map date (filter (\<lambda>row. a \<le> date row \<and> date row \<le> b) daily))"
    by (rule sorted_filter)
  then have "sort_key date (filter (\<lambda>row. a \<le> date row \<and> date row \<le> b) daily)
      = filter (\<lambda>row. a \<le> date row \<and> date row \<le> b) daily"
    by (rule sort_key_id_if_sorted)
  then show ?thesis
    by (simp add: zero_shot_historical_data_def)
qed

lemma length_filter_distinct_key:
  assumes "distinct (map k xs)"
  shows "length (filter (\<lambda>x. P (k x)) xs) = card {d \<in> set (map k xs). P d}"
proof -
  have "filter P (map k xs) = map k (filter (\<lambda>x. P (k x)) xs)"
    by (simp add: filter_map comp_def)
  moreover have "distinct (filter P (map k xs))"
    using assms by simp
  ultimately have "length (filter (\<lambda>x. P (k x)) xs) = card (set (filter P (map k xs)))"
    by (metis distinct_card length_map)
  also have "set (filter P (map k xs)) = {d \<in> set (map k xs). P d}"
    by auto
  finally show ?thesis .
qed

text \<open>The concrete datasets have one resampled day per input day.\<close>

lemma example_daily_3:
  "daily_data example_lib (example_df 3) ''X'' ''value'' =
     Inr [\<lparr>date = 19358, daily_value = 10\<rparr>, \<lparr>date = 19359, daily_value = 11\<rparr>,
          \<lparr>date = 19360, daily_value = 12\<rparr>]"
  by code_simp

lemma example_daily_12: "map_sum id length (daily_data example_lib (example_df 12) ''X'' ''value'') = Inr 12"
  by code_simp

lemma example_daily_11: "map_sum id length (daily_data example_lib (example_df 11) ''X'' ''value'') = Inr 11"
  by code_simp

lemma example_fmt:
  "fmt_date example_lib 19359 = ''2023-01-02''"
  "fmt_date example_lib 19360 = ''2023-01-03''"
  "fmt_date example_lib 19361 = ''2023-01-04''"
  "fmt_date example_lib 19362 = ''2023-01-05''"
  "fmt_2f example_lib 11 = ''11.00''"
  "fmt_2f example_lib 12 = ''12.00''"
  by code_simp+


lemma example_daily_12_rows:
  "\<exists>daily. daily_data example_lib (example_df 12) ''X'' ''value'' = Inr daily \<and> length daily = 12"
  using example_daily_12
  by (cases "daily_data example_lib (example_df 12) ''X'' ''value''") simp_all

lemma example_daily_11_rows:
  "\<exists>daily. daily_data example_lib (example_df 11) ''X'' ''value'' = Inr daily \<and> length daily = 11"
  using example_daily_11
  by (cases "daily_data example_lib (example_df 11) ''X'' ''value''") simp_all


subsection \<open>Fine-tuning windows\<close>

text \<open>
  C2. When the common prefix raises, the fine-tuning call raises the same exception.
  Otherwise the call returns: with \<open>n\<close> resampled daily rows, history length \<open>h\<close> and
  forecast length \<open>f\<close>, it emits no record when \<open>n < h + f\<close> and \<open>n - f + 1 - h\<close>
  records otherwise: exactly one when \<open>n = h + f\<close>, none when \<open>n = h + f - 1\<close>. For
  non-negative \<open>h\<close> and \<open>f\<close> the \<open>k\<close>-th record is rendered from the window of \<open>h\<close>
  rows starting at row \<open>k\<close> and from the \<open>f\<close> rows that follow it, and the rows are in
  strictly increasing order of their dates, so the records are in chronological order of
  their window starts.
\<close>

theorem fine_tuning_sliding_windows:
  fixes L :: "'v lib" and df :: "'v frame" and name parameter :: string
    and h f :: int and m :: "int option"
  shows "case daily_data L df name parameter of
           Inl e \<Rightarrow>
             create_daily_forecast_prompts_v4 L df name parameter h f ''fine-tuning'' m = Inl e
         | Inr daily \<Rightarrow>
            (case create_daily_forecast_prompts_v4 L df name parameter h f ''fine-tuning'' m of
               Inl e \<Rightarrow> False
             | Inr res \<Rightarrow>
                 length (fst res) =
                   (if int (length daily) < h + f then 0
                    else nat (int (length daily) - f + 1 - h))
               \<and> (int (length daily) = h + f \<longrightarrow> length (fst res) = 1)
               \<and> (int (length daily) = h + f - 1 \<longrightarrow> length (fst res) = 0)
               \<and> (0 \<le> h \<and> 0 \<le> f \<longrightarrow>
                    fst res =
                      map (\<lambda>k. \<lparr>Prompt = fine_tuning_instruction L name parameter
                                           (take (nat h) (drop k daily)),
                                 Completion = future_target L
                                           (take (nat f) (drop (k + nat h) daily))\<rparr>)
                        [0..<length (fst res)])
               \<and> sorted_wrt (<) (map date daily))"
proof (cases "daily_data L df name parameter")
  case (Inl e)
  then show ?thesis by (simp add: prefix_error)
next
  case (Inr daily)
  define n where "n = int (length daily)"
  define out where "out = (if n < h + f then []
      else map (\<lambda>k. \<lparr>Prompt = fine_tuning_instruction L name parameter (py_slice daily (int k) (int k + h)),
                      Completion = future_target L (py_slice daily (int k + h) (int k + h + f))\<rparr>)
             [0..<nat (n - f + 1 - h)])"
  have run: "fst (projr (create_daily_forecast_prompts_v4 L df name parameter h f ''fine-tuning'' m)) = out"
    and ok: "\<not> isl (create_daily_forecast_prompts_v4 L df name parameter h f ''fine-tuning'' m)"
    using fine_tuning_output [OF Inr, of h f m] by (simp_all add: out_def n_def)
  have len: "length out = (if n < h + f then 0 else nat (n - f + 1 - h))"
    by (simp add: out_def)
  have one: "n = h + f \<longrightarrow> length out = 1"
    by (simp add: len)
  have zero: "n = h + f - 1 \<longrightarrow> length out = 0"
    by (simp add: len)
  have win: "out = map (\<lambda>k. \<lparr>Prompt = fine_tuning_instruction L name parameter
                                       (take (nat h) (drop k daily)),
                             Completion = future_target L
                                       (take (nat f) (drop (k + nat h) daily))\<rparr>)
                    [0..<length out]" if hf: "0 \<le> h" "0 \<le> f"
  proof (cases "n < h + f")
    case True
    then show ?thesis by (simp add: out_def)
  next
    case False
    have slices: "py_slice daily (int k) (int k + h) = take (nat h) (drop k daily)
        \<and> py_slice daily (int k + h) (int k + h + f) = take (nat f) (drop (k + nat h) daily)"
      if "k < nat (n - f + 1 - h)" for k
    proof -
      have b: "k + nat h + nat f \<le> length daily"
        using that hf False by (simp add: n_def)
      have "k + nat h \<le> length daily"
        using b by simp
      then have "py_slice daily (int k) (int k + int (nat h)) = take (nat h) (drop k daily)"
        by (rule py_slice_window)
      moreover have "py_slice daily (int (k + nat h)) (int (k + nat h) + int (nat f))
          = take (nat f) (drop (k + nat h) daily)"
        using b by (rule py_slice_window)
      ultimately show ?thesis using hf by simp
    qed
    show ?thesis
      using False by (subst out_def) (simp add: len slices)
  qed
  have srt: "sorted_wrt (<) (map date daily)"
    using Inr by (rule strict_sorted_daily_data)
  from ok obtain res where res: "create_daily_forecast_prompts_v4 L df name parameter h f ''fine-tuning'' m = Inr res"
    by (cases "create_daily_forecast_prompts_v4 L df name parameter h f ''fine-tuning'' m") simp_all
  with run have "fst res = out" by simp
  with len one zero win srt show ?thesis
    by (simp add: Inr res n_def)
qed

theorem fine_tuning_sliding_windows_witness:
  "(\<exists>daily. daily_data example_lib (example_df 12) ''X'' ''value'' = Inr daily
       \<and> int (length daily) = 10 + 2)
   \<and> map_sum id (\<lambda>res. length (fst res))
        (create_daily_forecast_prompts_v4 example_lib (example_df 12) ''X'' ''value''
           10 2 ''fine-tuning'' None) = Inr 1
   \<and> (\<exists>daily. daily_data example_lib (example_df 11) ''X'' ''value'' = Inr daily
       \<and> int (length daily) = 10 + 2 - 1)
   \<and> map_sum id (\<lambda>res. length (fst res))
        (create_daily_forecast_prompts_v4 example_lib (example_df 11) ''X'' ''value''
           10 2 ''fine-tuning'' None) = Inr 0"
proof -
  obtain d12 where d12: "daily_data example_lib (example_df 12) ''X'' ''value'' = Inr d12"
    and l12: "length d12 = 12"
    using example_daily_12_rows by blast
  obtain d11 where d11: "daily_data example_lib (example_df 11) ''X'' ''value'' = Inr d11"
    and l11: "length d11 = 11"
    using example_daily_11_rows by blast
  have a: "map_sum id (\<lambda>res. length (fst res))
        (create_daily_forecast_prompts_v4 example_lib (example_df 12) ''X'' ''value''
           10 2 ''fine-tuning'' None) = Inr 1"
    using fine_tuning_sliding_windows [where L = example_lib and df = "example_df 12"
        and name = "''X''" and parameter = "''value''" and h = 10 and f = 2 and m = None]
      d12 l12
    by (cases "create_daily_forecast_prompts_v4 example_lib (example_df 12) ''X'' ''value''
           10 2 ''fine-tuning'' None") simp_all
  have b: "map_sum id (\<lambda>res. length (fst res))
        (create_daily_forecast_prompts_v4 example_lib (example_df 11) ''X'' ''value''
           10 2 ''fine-tuning'' None) = Inr 0"
    using fine_tuning_sliding_windows [where L = example_lib and df = "example_df 11"
        and name = "''X''" and parameter = "''value''" and h = 10 and f = 2 and m = None]
      d11 l11
    by (cases "create_daily_forecast_prompts_v4 example_lib (example_df 11) ''X'' ''value''
           10 2 ''fine-tuning'' None") simp_all
  show ?thesis
    using a b d12 l12 d11 l11 by simp
qed


text \<open>
  The completion of the one record of the twelve-day example, and the whole result for
  three days with a history of two days and a forecast of one.
\<close>

lemma fine_tuning_example_completion:
  "map_sum id (\<lambda>res. map Completion (fst res))
     (create_daily_forecast_prompts_v4 example_lib (example_df 12) ''X'' ''value''
        10 2 ''fine-tuning'' None) =
   Inr [''| Date       | Predicted Value ('' @ [CHR 0xC2, CHR 0xB5] @ ''g/m''
        @ [CHR 0xC2, CHR 0xB3] @ '') |'' @ [CHR 0x0A]
        @ ''|------------|-------------------------|'' @ [CHR 0x0A]
        @ ''| 2023-01-11 | 20.00 |'' @ [CHR 0x0A]
        @ ''| 2023-01-12 | 21.00 |'']"
  by code_simp

lemma fine_tuning_example_record:
  "create_daily_forecast_prompts_v4 example_lib (example_df 3) ''X'' ''value'' 2 1 ''fine-tuning'' None =
     Inr ([\<lparr>Prompt =
               ''You are an advanced forecasting system tasked with predicting daily air quality for X.''
               @ [CHR 0x0A]
               @ ''The data includes daily mean values for '' @ [CHR 0x27] @ ''value'' @ [CHR 0x27]
               @ '' (in '' @ [CHR 0xC2, CHR 0xB5] @ ''g/m'' @ [CHR 0xC2, CHR 0xB3] @ '').''
               @ [CHR 0x0A, CHR 0x0A]
               @ ''### Historical Data:'' @ [CHR 0x0A]
               @ ''| Date       | Value ('' @ [CHR 0xC2, CHR 0xB5] @ ''g/m'' @ [CHR 0xC2, CHR 0xB3]
               @ '') |'' @ [CHR 0x0A]
               @ ''|------------|---------------|'' @ [CHR 0x0A]
               @ ''| 2023-01-01 | 10.00 |'' @ [CHR 0x0A]
               @ ''| 2023-01-02 | 11.00 |'' @ [CHR 0x0A, CHR 0x0A]
               @ ''### Instructions:'' @ [CHR 0x0A]
               @ ''1. Forecast daily mean '' @ [CHR 0x27] @ ''value'' @ [CHR 0x27]
               @ '' for each day.'' @ [CHR 0x0A]
               @ ''2. Provide output as a table:'' @ [CHR 0x0A]
               @ ''| Date       | Predicted Value ('' @ [CHR 0xC2, CHR 0xB5] @ ''g/m''
               @ [CHR 0xC2, CHR 0xB3] @ '') |'' @ [CHR 0x0A]
               @ ''|------------|-------------------------|'',
             Completion =
               ''| Date       | Predicted Value ('' @ [CHR 0xC2, CHR 0xB5] @ ''g/m''
               @ [CHR 0xC2, CHR 0xB3] @ '') |'' @ [CHR 0x0A]
               @ ''|------------|-------------------------|'' @ [CHR 0x0A]
               @ ''| 2023-01-03 | 12.00 |''\<rparr>],
          [InstructionResponse
             (''You are an advanced forecasting system tasked with predicting daily air quality for X.''
               @ [CHR 0x0A]
               @ ''The data includes daily mean values for '' @ [CHR 0x27] @ ''value'' @ [CHR 0x27]
               @ '' (in '' @ [CHR 0xC2, CHR 0xB5] @ ''g/m'' @ [CHR 0xC2, CHR 0xB3] @ '').''
               @ [CHR 0x0A, CHR 0x0A]
               @ ''### Historical Data:'' @ [CHR 0x0A]
               @ ''| Date       | Value ('' @ [CHR 0xC2, CHR 0xB5] @ ''g/m'' @ [CHR 0xC2, CHR 0xB3]
               @ '') |'' @ [CHR 0x0A]
               @ ''|------------|---------------|'' @ [CHR 0x0A]
               @ ''| 2023-01-01 | 10.00 |'' @ [CHR 0x0A]
               @ ''| 2023-01-02 | 11.00 |'' @ [CHR 0x0A, CHR 0x0A]
               @ ''### Instructions:'' @ [CHR 0x0A]
               @ ''1. Forecast daily mean '' @ [CHR 0x27] @ ''value'' @ [CHR 0x27]
               @ '' for each day.'' @ [CHR 0x0A]
               @ ''2. Provide output as a table:'' @ [CHR 0x0A]
               @ ''| Date       | Predicted Value ('' @ [CHR 0xC2, CHR 0xB5] @ ''g/m''
               @ [CHR 0xC2, CHR 0xB3] @ '') |'' @ [CHR 0x0A]
               @ ''|------------|-------------------------|'')
             (''| Date       | Predicted Value ('' @ [CHR 0xC2, CHR 0xB5] @ ''g/m''
               @ [CHR 0xC2, CHR 0xB3] @ '') |'' @ [CHR 0x0A]
               @ ''|------------|-------------------------|'' @ [CHR 0x0A]
               @ ''| 2023-01-03 | 12.00 |'')])"
  by code_simp

subsection \<open>Zero-shot\<close>

text \<open>
  C3, as stated, fails: not every zero-shot call emits a record. With a history length of
  \<open>10^12\<close> days the time difference cannot be built and the call raises OverflowError;
  with a \<open>datetime\<close> cell that is no date the call raises ValueError.
\<close>

theorem zero_shot_raises:
  "create_daily_forecast_prompts_v4 example_lib (example_df 3) ''X'' ''value''
     1000000000000 2 ''zero-shot'' None = Inl OverflowError
   \<and> create_daily_forecast_prompts_v4 example_lib example_df_unparseable ''X'' ''value''
     2 2 ''zero-shot'' None = Inl ValueError"
  by code_simp


text \<open>
  C3, amended. Let the common prefix return the resampled rows. When the dates of the
  zero-shot branch are in range, the call emits exactly one record, whose completion is
  the fixed table header. With \<open>latest\<close> the latest resampled day, the prompt is the
  instruction text filled with the bounds \<open>latest - (h - 1)\<close> and \<open>latest\<close> of the
  historical window, the bounds \<open>latest + 1\<close> and \<open>latest + f\<close> of the forecast window,
  and the historical table: the two header lines, then one line, with the date and the
  value, for every resampled row whose day lies in \<open>[latest - (h - 1), latest]\<close>, as
  many lines as there are such days, in increasing order of the days. With no resampled
  day the table has no line and the bounds read NaT and nan. When the dates are out of
  range the call raises OverflowError.
\<close>

theorem zero_shot_single_record:
  fixes L :: "'v lib" and df :: "'v frame" and name parameter :: string
    and h f :: int and m :: "int option" and daily :: "'v daily_row list"
  assumes prefix: "daily_data L df name parameter = Inr daily"
  defines "latest \<equiv> Max (set (map date daily))"
  defines "hist \<equiv> filter (\<lambda>row. latest - (h - 1) \<le> date row \<and> date row \<le> latest) daily"
  defines "table \<equiv> \<lambda>rows :: 'v daily_row list.
       ''| Date       | Value ('' @ ug_m3 @ '') |'' @ nl @ ''|------------|---------------|'' @ nl
       @ join nl (map (\<lambda>row. ''| '' @ fmt_date L (date row) @ '' | ''
                                  @ fmt_2f L (daily_value row) @ '' |'') rows)"
  defines "header \<equiv>
       ''| Date       | Predicted Value ('' @ ug_m3 @ '') |'' @ nl
       @ ''|------------|-------------------------|''"
  defines "prompt_text \<equiv> \<lambda>start_text end_text body forecast_start_text forecast_end_text.
       ''You are an advanced forecasting system tasked with predicting daily air quality for ''
         @ name @ ''.'' @ nl
       @ ''The data includes daily mean values for '' @ quote @ parameter @ quote
         @ '' (in '' @ ug_m3 @ '').'' @ nl @ nl
       @ ''### Historical Data (from '' @ start_text @ '' to '' @ end_text @ ''):'' @ nl
       @ body @ nl @ nl
       @ ''### Instructions:'' @ nl
       @ ''1. Forecast daily mean '' @ quote @ parameter @ quote @ '' for each day from ''
         @ forecast_start_text @ '' to '' @ forecast_end_text @ ''.'' @ nl
       @ ''2. Provide output as a table:'' @ nl
       @ header"
  shows "(window_in_range daily h f \<and> daily \<noteq> [] \<longrightarrow>
            create_daily_forecast_prompts_v4 L df name parameter h f ''zero-shot'' m =
              Inr ([\<lparr>Prompt = prompt_text (fmt_date L (latest - (h - 1))) (fmt_date L latest)
                                  (table hist)
                                  (fmt_date L (latest + 1)) (fmt_date L (latest + f)),
                      Completion = header\<rparr>],
                   [Instruction (prompt_text (fmt_date L (latest - (h - 1))) (fmt_date L latest)
                                  (table hist)
                                  (fmt_date L (latest + 1)) (fmt_date L (latest + f)))])
          \<and> length hist = card {d \<in> set (map date daily). latest - (h - 1) \<le> d \<and> d \<le> latest}
          \<and> sorted_wrt (<) (map date hist))
       \<and> (window_in_range daily h f \<and> daily = [] \<longrightarrow>
            create_daily_forecast_prompts_v4 L df name parameter h f ''zero-shot'' m =
              Inr ([\<lparr>Prompt = prompt_text ''NaT'' ''nan'' (table []) ''NaT'' ''NaT'',
                      Completion = header\<rparr>],
                   [Instruction (prompt_text ''NaT'' ''nan'' (table []) ''NaT'' ''NaT'')]))
       \<and> (\<not> window_in_range daily h f \<longrightarrow>
            create_daily_forecast_prompts_v4 L df name parameter h f ''zero-shot'' m
              = Inl OverflowError)"
proof -
  have srt: "sorted_wrt (<) (map date daily)"
    using prefix by (rule strict_sorted_daily_data)
  have full: "create_daily_forecast_prompts_v4 L df name parameter h f ''zero-shot'' m =
              Inr ([\<lparr>Prompt = prompt_text (fmt_date L (latest - (h - 1))) (fmt_date L latest)
                                  (table hist)
                                  (fmt_date L (latest + 1)) (fmt_date L (latest + f)),
                      Completion = header\<rparr>],
                   [Instruction (prompt_text (fmt_date L (latest - (h - 1))) (fmt_date L latest)
                                  (table hist)
                                  (fmt_date L (latest + 1)) (fmt_date L (latest + f)))])
          \<and> length hist = card {d \<in> set (map date daily). latest - (h - 1) \<le> d \<and> d \<le> latest}
          \<and> sorted_wrt (<) (map date hist)"
    if ok: "window_in_range daily h f" and ne: "daily \<noteq> []"
  proof -
    have w: "zero_shot_window daily h f =
       Inr \<lparr>start_historical_date = Day (latest - (h - 1)), end_historical_date = Day latest,
            forecast_start_date = Day (latest + 1), forecast_end_date = Day (latest + f)\<rparr>"
      unfolding latest_def using ne ok by (rule zero_shot_window_nonempty)
    have hd: "zero_shot_historical_data daily
           \<lparr>start_historical_date = Day (latest - (h - 1)), end_historical_date = Day latest,
            forecast_start_date = Day (latest + 1), forecast_end_date = Day (latest + f)\<rparr> = hist"
      unfolding hist_def using srt by (rule historical_data_window)
    have run: "create_daily_forecast_prompts_v4 L df name parameter h f ''zero-shot'' m =
              Inr ([\<lparr>Prompt = prompt_text (fmt_date L (latest - (h - 1))) (fmt_date L latest)
                                  (table hist)
                                  (fmt_date L (latest + 1)) (fmt_date L (latest + f)),
                      Completion = header\<rparr>],
                   [Instruction (prompt_text (fmt_date L (latest - (h - 1))) (fmt_date L latest)
                                  (table hist)
                                  (fmt_date L (latest + 1)) (fmt_date L (latest + f)))])"
      by (simp add: create_daily_forecast_prompts_v4_def prefix w Let_def
          zero_shot_instruction_def hd zero_shot_text_def prompt_text_def table_def header_def
          historical_header_def predicted_header_def completion_zero_shot_def
          render_rows_def render_row_def [abs_def])
    have "distinct (map date daily)"
      using srt by (simp add: strict_sorted_iff)
    then have cnt: "length hist = card {d \<in> set (map date daily). latest - (h - 1) \<le> d \<and> d \<le> latest}"
      unfolding hist_def
      by (rule length_filter_distinct_key [where P = "\<lambda>d. latest - (h - 1) \<le> d \<and> d \<le> latest"])
    have "sorted_wrt (<) (map date hist)"
      unfolding hist_def using srt by (simp add: sorted_wrt_map sorted_wrt_filter)
    with run cnt show ?thesis by blast
  qed
  have empty: "create_daily_forecast_prompts_v4 L df name parameter h f ''zero-shot'' m =
              Inr ([\<lparr>Prompt = prompt_text ''NaT'' ''nan'' (table []) ''NaT'' ''NaT'',
                      Completion = header\<rparr>],
                   [Instruction (prompt_text ''NaT'' ''nan'' (table []) ''NaT'' ''NaT'')])"
    if ok: "window_in_range daily h f" and em: "daily = []"
  proof -
    have w: "zero_shot_window [] h f =
       Inr \<lparr>start_historical_date = NaT, end_historical_date = NaN,
            forecast_start_date = NaT, forecast_end_date = NaT\<rparr>"
      using ok unfolding em by (rule zero_shot_window_empty)
    have p: "daily_data L df name parameter = Inr []"
      using prefix by (simp add: em)
    show ?thesis
      by (simp add: create_daily_forecast_prompts_v4_def p w Let_def
          zero_shot_instruction_def zero_shot_historical_data_def zero_shot_text_def
          prompt_text_def table_def header_def historical_header_def predicted_header_def
          completion_zero_shot_def render_rows_def)
  qed
  have bad: "create_daily_forecast_prompts_v4 L df name parameter h f ''zero-shot'' m
              = Inl OverflowError" if "\<not> window_in_range daily h f"
    using zero_shot_window_out_of_range [OF that]
    by (simp add: create_daily_forecast_prompts_v4_def prefix)
  show ?thesis using full empty bad by blast
qed

theorem zero_shot_single_record_witness:
  "daily_data example_lib (example_df 3) ''X'' ''value'' =
     Inr [\<lparr>date = 19358, daily_value = 10\<rparr>, \<lparr>date = 19359, daily_value = 11\<rparr>,
          \<lparr>date = 19360, daily_value = 12\<rparr>]
   \<and> window_in_range [\<lparr>date = 19358, daily_value = 10::int\<rparr>, \<lparr>date = 19359, daily_value = 11\<rparr>,
          \<lparr>date = 19360, daily_value = 12\<rparr>] 2 2
   \<and> create_daily_forecast_prompts_v4 example_lib (example_df 3) ''X'' ''value'' 2 2 ''zero-shot'' None =
       Inr ([\<lparr>Prompt =
               ''You are an advanced forecasting system tasked with predicting daily air quality for X.''
               @ [CHR 0x0A]
               @ ''The data includes daily mean values for '' @ [CHR 0x27] @ ''value'' @ [CHR 0x27]
               @ '' (in '' @ [CHR 0xC2, CHR 0xB5] @ ''g/m'' @ [CHR 0xC2, CHR 0xB3] @ '').''
               @ [CHR 0x0A, CHR 0x0A]
               @ ''### Historical Data (from 2023-01-02 to 2023-01-03):'' @ [CHR 0x0A]
               @ ''| Date       | Value ('' @ [CHR 0xC2, CHR 0xB5] @ ''g/m'' @ [CHR 0xC2, CHR 0xB3]
               @ '') |'' @ [CHR 0x0A]
               @ ''|------------|---------------|'' @ [CHR 0x0A]
               @ ''| 2023-01-02 | 11.00 |'' @ [CHR 0x0A]
               @ ''| 2023-01-03 | 12.00 |'' @ [CHR 0x0A, CHR 0x0A]
               @ ''### Instructions:'' @ [CHR 0x0A]
               @ ''1. Forecast daily mean '' @ [CHR 0x27] @ ''value'' @ [CHR 0x27]
               @ '' for each day from 2023-01-04 to 2023-01-05.'' @ [CHR 0x0A]
               @ ''2. Provide output as a table:'' @ [CHR 0x0A]
               @ ''| Date       | Predicted Value ('' @ [CHR 0xC2, CHR 0xB5] @ ''g/m''
               @ [CHR 0xC2, CHR 0xB3] @ '') |'' @ [CHR 0x0A]
               @ ''|------------|-------------------------|'',
             Completion =
               ''| Date       | Predicted Value ('' @ [CHR 0xC2, CHR 0xB5] @ ''g/m''
               @ [CHR 0xC2, CHR 0xB3] @ '') |'' @ [CHR 0x0A]
               @ ''|------------|-------------------------|''\<rparr>],
            [Instruction
              (''You are an advanced forecasting system tasked with predicting daily air quality for X.''
               @ [CHR 0x0A]
               @ ''The data includes daily mean values for '' @ [CHR 0x27] @ ''value'' @ [CHR 0x27]
               @ '' (in '' @ [CHR 0xC2, CHR 0xB5] @ ''g/m'' @ [CHR 0xC2, CHR 0xB3] @ '').''
               @ [CHR 0x0A, CHR 0x0A]
               @ ''### Historical Data (from 2023-01-02 to 2023-01-03):'' @ [CHR 0x0A]
               @ ''| Date       | Value ('' @ [CHR 0xC2, CHR 0xB5] @ ''g/m'' @ [CHR 0xC2, CHR 0xB3]
               @ '') |'' @ [CHR 0x0A]
               @ ''|------------|---------------|'' @ [CHR 0x0A]
               @ ''| 2023-01-02 | 11.00 |'' @ [CHR 0x0A]
               @ ''| 2023-01-03 | 12.00 |'' @ [CHR 0x0A, CHR 0x0A]
               @ ''### Instructions:'' @ [CHR 0x0A]
               @ ''1. Forecast daily mean '' @ [CHR 0x27] @ ''value'' @ [CHR 0x27]
               @ '' for each day from 2023-01-04 to 2023-01-05.'' @ [CHR 0x0A]
               @ ''2. Provide output as a table:'' @ [CHR 0x0A]
               @ ''| Date       | Predicted Value ('' @ [CHR 0xC2, CHR 0xB5] @ ''g/m''
               @ [CHR 0xC2, CHR 0xB3] @ '') |'' @ [CHR 0x0A]
               @ ''|------------|-------------------------|'')])"
proof -
  let ?daily = "[\<lparr>date = 19358, daily_value = 10::int\<rparr>, \<lparr>date = 19359, daily_value = 11\<rparr>,
          \<lparr>date = 19360, daily_value = 12\<rparr>]"
  have range: "window_in_range ?daily 2 2"
    by (simp add: window_in_range_def is_date_def date_min_def date_max_def)
  have ne: "?daily \<noteq> []"
    by simp
  show ?thesis
    using example_daily_3 range
      zero_shot_single_record [where L = example_lib and df = "example_df 3" and name = "''X''"
        and parameter = "''value''" and h = 2 and f = 2 and m = None, OF example_daily_3]
    by (simp add: example_fmt nl_def quote_def ug_m3_def)
qed

subsection \<open>Unused and unknown arguments\<close>

text \<open>
  C9. The argument \<open>max_prompts_per_city\<close> has no effect: two calls that differ only in
  it return the same pair of lists, or raise the same exception.
\<close>

theorem max_prompts_per_city_ignored:
  "create_daily_forecast_prompts_v4 L df name parameter h f prompt_type m1 =
   create_daily_forecast_prompts_v4 L df name parameter h f prompt_type m2"
  by (simp add: create_daily_forecast_prompts_v4_def)

theorem max_prompts_per_city_ignored_witness:
  "create_daily_forecast_prompts_v4 example_lib (example_df 14) ''X'' ''value'' 10 2 ''fine-tuning'' None =
   create_daily_forecast_prompts_v4 example_lib (example_df 14) ''X'' ''value'' 10 2 ''fine-tuning'' (Some 3)"
  by (rule max_prompts_per_city_ignored)











section \<open>Properties of the Stage 2 driver\<close>

lemma process_location_None:
  assumes "load_data_from_s3 S b (s3_file_key_of p c) = None"
  shows "process_location L S b p c acc = Inr acc"
  using assms by (simp add: process_location_def)

lemma process_locations_append:
  "process_locations L S b p (xs @ ys) acc =
     (case process_locations L S b p xs acc of
        Inl e \<Rightarrow> Inl e
      | Inr acc' \<Rightarrow> process_locations L S b p ys acc')"
  by (induction xs arbitrary: acc) (simp_all split: sum.splits)

lemma process_locations_filter:
  "process_locations L S b p cities acc =
   process_locations L S b p
     (filter (\<lambda>c. load_data_from_s3 S b (s3_file_key_of p c) \<noteq> None) cities) acc"
  by (induction cities arbitrary: acc) (simp_all add: process_location_None split: sum.splits)

text \<open>
  C8. When reading a city's artifact fails at any of the three steps (the object is
  absent, its bytes do not decode, the CSV does not parse), the storage read yields
  \<open>None\<close>; such a city raises nothing and leaves both global lists unchanged, and the
  loop goes on: the run over all cities equals the run over the cities whose artifact
  loads, and when no artifact loads the driver returns the two empty lists.
\<close>

theorem unreadable_city_is_skipped:
  fixes L :: "'v lib" and S :: "'v storage"
  shows
   "(isl (s3_get_object S b k) \<longrightarrow> load_data_from_s3 S b k = None)
  \<and> (s3_get_object S b k = Inr body \<and> isl (decode_utf8 S body) \<longrightarrow> load_data_from_s3 S b k = None)
  \<and> (s3_get_object S b k = Inr body \<and> decode_utf8 S body = Inr csv_content
       \<and> isl (read_csv S csv_content) \<longrightarrow> load_data_from_s3 S b k = None)
  \<and> (load_data_from_s3 S b (s3_file_key_of p c) = None \<longrightarrow>
        process_location L S b p c acc = Inr acc)
  \<and> (load_data_from_s3 S b (s3_file_key_of p c) = None \<longrightarrow>
        process_locations L S b p (before @ c # after) acc =
        process_locations L S b p (before @ after) acc)
  \<and> process_locations L S b p (before @ c # after) acc =
      (case process_locations L S b p before acc of
         Inl e \<Rightarrow> Inl e
       | Inr acc1 \<Rightarrow>
           (case process_location L S b p c acc1 of
              Inl e \<Rightarrow> Inl e
            | Inr acc2 \<Rightarrow> process_locations L S b p after acc2))
  \<and> process_locations L S b p cities acc =
      process_locations L S b p
        (filter (\<lambda>c. load_data_from_s3 S b (s3_file_key_of p c) \<noteq> None) cities) acc
  \<and> main_stage2 L S b p (Inr config) =
      process_locations L S b p
        (filter (\<lambda>c. load_data_from_s3 S b (s3_file_key_of p c) \<noteq> None) (map fst config))
        \<lparr>all_zero_shot_prompts = [], all_ft_prompts = []\<rparr>
  \<and> ((\<forall>c \<in> set (map fst config). load_data_from_s3 S b (s3_file_key_of p c) = None) \<longrightarrow>
        main_stage2 L S b p (Inr config) =
          Inr \<lparr>all_zero_shot_prompts = [], all_ft_prompts = []\<rparr>)"
proof -
  have a: "isl (s3_get_object S b k) \<longrightarrow> load_data_from_s3 S b k = None"
    by (auto simp: load_data_from_s3_def isl_def)
  have b: "s3_get_object S b k = Inr body \<and> isl (decode_utf8 S body) \<longrightarrow> load_data_from_s3 S b k = None"
    by (auto simp: load_data_from_s3_def isl_def)
  have c: "s3_get_object S b k = Inr body \<and> decode_utf8 S body = Inr csv_content
       \<and> isl (read_csv S csv_content) \<longrightarrow> load_data_from_s3 S b k = None"
    by (auto simp: load_data_from_s3_def isl_def)
  have d: "load_data_from_s3 S b (s3_file_key_of p c) = None \<longrightarrow>
        process_location L S b p c acc = Inr acc"
    by (simp add: process_location_None)
  have e: "load_data_from_s3 S b (s3_file_key_of p c) = None \<longrightarrow>
        process_locations L S b p (before @ c # after) acc =
        process_locations L S b p (before @ after) acc"
    by (simp add: process_locations_append process_location_None split: sum.splits)
  have e': "process_locations L S b p (before @ c # after) acc =
      (case process_locations L S b p before acc of
         Inl e \<Rightarrow> Inl e
       | Inr acc1 \<Rightarrow>
           (case process_location L S b p c acc1 of
              Inl e \<Rightarrow> Inl e
            | Inr acc2 \<Rightarrow> process_locations L S b p after acc2))"
    by (simp add: process_locations_append split: sum.splits)
  have f: "process_locations L S b p cities acc =
      process_locations L S b p
        (filter (\<lambda>c. load_data_from_s3 S b (s3_file_key_of p c) \<noteq> None) cities) acc"
    by (rule process_locations_filter)
  have g: "main_stage2 L S b p (Inr config) =
      process_locations L S b p
        (filter (\<lambda>c. load_data_from_s3 S b (s3_file_key_of p c) \<noteq> None) (map fst config))
        \<lparr>all_zero_shot_prompts = [], all_ft_prompts = []\<rparr>"
    unfolding main_stage2_def using process_locations_filter [of L S b p "map fst config"]
    by simp
  have h: "main_stage2 L S b p (Inr config) =
          Inr \<lparr>all_zero_shot_prompts = [], all_ft_prompts = []\<rparr>"
    if "\<forall>c \<in> set (map fst config). load_data_from_s3 S b (s3_file_key_of p c) = None"
  proof -
    have "filter (\<lambda>c. load_data_from_s3 S b (s3_file_key_of p c) \<noteq> None) (map fst config) = []"
      using that by (simp add: filter_empty_conv)
    then show ?thesis by (simp add: g)
  qed
  show ?thesis using a b c d e e' f g h by blast
qed

lemma example_load_A: "load_data_from_s3 example_storage ''bucket'' (s3_file_key_of ''out'' ''A'') = None"
  by (simp add: load_data_from_s3_def example_storage_def s3_file_key_of_def)

lemma example_get_A: "isl (s3_get_object example_storage ''bucket'' (s3_file_key_of ''out'' ''A''))"
  by (simp add: example_storage_def s3_file_key_of_def)

lemma example_run_X:
  "map_sum id (\<lambda>acc. (length (all_zero_shot_prompts acc), length (all_ft_prompts acc)))
     (process_locations example_lib example_storage ''bucket'' ''out'' [''X'']
        \<lparr>all_zero_shot_prompts = [], all_ft_prompts = []\<rparr>) = Inr (1, 1)"
  by code_simp

theorem unreadable_city_is_skipped_witness:
  "isl (s3_get_object example_storage ''bucket'' (s3_file_key_of ''out'' ''A''))
   \<and> load_data_from_s3 example_storage ''bucket'' (s3_file_key_of ''out'' ''A'') = None
   \<and> process_location example_lib example_storage ''bucket'' ''out'' ''A''
        \<lparr>all_zero_shot_prompts = [], all_ft_prompts = []\<rparr>
      = Inr \<lparr>all_zero_shot_prompts = [], all_ft_prompts = []\<rparr>
   \<and> process_locations example_lib example_storage ''bucket'' ''out'' ([] @ ''A'' # [''X''])
        \<lparr>all_zero_shot_prompts = [], all_ft_prompts = []\<rparr>
      = process_locations example_lib example_storage ''bucket'' ''out'' ([] @ [''X''])
        \<lparr>all_zero_shot_prompts = [], all_ft_prompts = []\<rparr>
   \<and> map_sum id (\<lambda>acc. (length (all_zero_shot_prompts acc), length (all_ft_prompts acc)))
        (process_locations example_lib example_storage ''bucket'' ''out'' [''A'', ''X'']
           \<lparr>all_zero_shot_prompts = [], all_ft_prompts = []\<rparr>) = Inr (1, 1)"
  using example_get_A example_load_A example_run_X
    unreadable_city_is_skipped [where L = example_lib and S = example_storage and b = "''bucket''"
      and k = "s3_file_key_of ''out'' ''A''" and p = "''out''" and c = "''A''"
      and acc = "\<lparr>all_zero_shot_prompts = [], all_ft_prompts = []\<rparr>"
      and before = "[]" and after = "[''X'']" and cities = "[''A'', ''X'']"
      and config = "[(''A'', ()), (''X'', ())]" and body = "''csv''" and csv_content = "''csv''"]
  by simp
section \<open>Properties of the ingestion stage\<close>

subsection \<open>The downloader\<close>

lemma fold_process_object:
  "fold (process_object A suffix) contents df =
     df @ concat (map (get_object A) (filter (\<lambda>key. endswith key suffix) contents))"
  by (induction contents arbitrary: df) (simp_all add: process_object_def)

lemma process_day_adds:
  "process_day A l d st =
     \<lparr>consolidated_df = consolidated_df st @ rows_of_pair A l d,
      failed_locations = failed_locations st @ failed_of_pair A l d\<rparr>"
  by (cases "list_objects_v2 A (pair_prefix A l d)")
     (simp_all add: process_day_def Let_def rows_of_pair_def failed_of_pair_def pair_prefix_def
        pair_suffix_def fold_process_object)

lemma fold_process_day:
  "fold (process_day A l) days st =
     \<lparr>consolidated_df = consolidated_df st @ concat (map (rows_of_pair A l) days),
      failed_locations = failed_locations st @ concat (map (failed_of_pair A l) days)\<rparr>"
  by (induction days arbitrary: st) (simp_all add: process_day_adds)

lemma fold_process_location_id:
  "fold (process_location_id A s e) locs st =
     \<lparr>consolidated_df = consolidated_df st
         @ concat (map (\<lambda>(l, d). rows_of_pair A l d) (List.product locs [s..e])),
      failed_locations = failed_locations st
         @ concat (map (\<lambda>(l, d). failed_of_pair A l d) (List.product locs [s..e]))\<rparr>"
  by (induction locs arbitrary: st)
     (simp_all add: process_location_id_def generate_date_range_def fold_process_day comp_def)

text \<open>
  C1, as stated, fails. The listing of December 2023 for location 1 holds the file of the
  30th only, so the pair (location 1, 31 December) has no matching object. The downloader
  adds no row for it and goes on, but it does not record the location: the list of failed
  locations stays empty, where the claim requires one entry for the missing day.
\<close>

theorem missing_day_not_recorded:
  "list_objects_v2 example_archive ''records/csv.gz/locationid=1/year=2023/month=12/''
     = Some [''records/csv.gz/locationid=1/year=2023/month=12/location-1-20231230.csv.gz'']
   \<and> \<not> endswith ''records/csv.gz/locationid=1/year=2023/month=12/location-1-20231230.csv.gz''
          ''20231231.csv.gz''
   \<and> process_day example_archive 1 19722 \<lparr>consolidated_df = [], failed_locations = []\<rparr>
       = \<lparr>consolidated_df = [], failed_locations = []\<rparr>
   \<and> download_data_to_dataframe example_archive [1] 19722 19722
       = \<lparr>consolidated_df = [], failed_locations = []\<rparr>
   \<and> 1 \<notin> set (failed_locations (download_data_to_dataframe example_archive [1] 19722 19722))"
  by (simp add: download_data_to_dataframe_def process_location_id_def generate_date_range_def
      process_day_def process_object_def endswith_def example_archive_def Let_def upto.simps)

text \<open>
  C1, amended. The downloader visits the pairs of the Cartesian product of the locations
  and the days in order, and each pair adds its own rows and its own entry, whatever the
  other pairs did. A pair without a matching object adds no row. A pair adds the location
  to the list of failed locations, once, exactly when the listing under the prefix of the
  day's month has no \<open>Contents\<close>; a location with several such days is listed several
  times, and a day that is missing from a non-empty listing is not recorded.
\<close>

theorem download_by_pairs:
  "download_data_to_dataframe A location_ids start_date end_date =
     \<lparr>consolidated_df =
        concat (map (\<lambda>(l, d). rows_of_pair A l d) (List.product location_ids [start_date..end_date])),
      failed_locations =
        concat (map (\<lambda>(l, d). failed_of_pair A l d) (List.product location_ids [start_date..end_date]))\<rparr>
   \<and> (no_matching_object A l d \<longrightarrow> rows_of_pair A l d = [])
   \<and> failed_of_pair A l d = (if list_objects_v2 A (pair_prefix A l d) = None then [l] else [])"
proof -
  have a: "download_data_to_dataframe A location_ids start_date end_date =
     \<lparr>consolidated_df =
        concat (map (\<lambda>(l, d). rows_of_pair A l d) (List.product location_ids [start_date..end_date])),
      failed_locations =
        concat (map (\<lambda>(l, d). failed_of_pair A l d) (List.product location_ids [start_date..end_date]))\<rparr>"
    by (simp add: download_data_to_dataframe_def fold_process_location_id)
  have b: "no_matching_object A l d \<longrightarrow> rows_of_pair A l d = []"
    by (cases "list_objects_v2 A (pair_prefix A l d)")
       (auto simp: no_matching_object_def rows_of_pair_def list_all_iff filter_empty_conv)
  have c: "failed_of_pair A l d = (if list_objects_v2 A (pair_prefix A l d) = None then [l] else [])"
    by (cases "list_objects_v2 A (pair_prefix A l d)") (simp_all add: failed_of_pair_def)
  show ?thesis using a b c by blast
qed

theorem download_by_pairs_witness:
  "no_matching_object example_archive 1 19722
   \<and> rows_of_pair example_archive 1 19722 = []
   \<and> failed_of_pair example_archive 1 19722 = []
   \<and> no_matching_object example_archive 2 19722
   \<and> rows_of_pair example_archive 2 19722 = []
   \<and> failed_of_pair example_archive 2 19722 = [2]
   \<and> download_data_to_dataframe example_archive [1, 2] 19721 19722 =
       \<lparr>consolidated_df =
          [''row of records/csv.gz/locationid=1/year=2023/month=12/location-1-20231230.csv.gz''],
        failed_locations = [2, 2]\<rparr>"
proof -
  have n1: "no_matching_object example_archive 1 19722"
    by (simp add: no_matching_object_def pair_prefix_def pair_suffix_def endswith_def
        example_archive_def)
  have n2: "no_matching_object example_archive 2 19722"
    by (simp add: no_matching_object_def pair_prefix_def example_archive_def)
  have l1: "list_objects_v2 example_archive (pair_prefix example_archive 1 19722) \<noteq> None"
    by (simp add: pair_prefix_def example_archive_def)
  have l2: "list_objects_v2 example_archive (pair_prefix example_archive 2 19722) = None"
    by (simp add: pair_prefix_def example_archive_def)
  have run: "download_data_to_dataframe example_archive [1, 2] 19721 19722 =
       \<lparr>consolidated_df =
          [''row of records/csv.gz/locationid=1/year=2023/month=12/location-1-20231230.csv.gz''],
        failed_locations = [2, 2]\<rparr>"
    by (simp add: download_data_to_dataframe_def process_location_id_def generate_date_range_def
      process_day_def process_object_def endswith_def example_archive_def Let_def upto.simps)
  show ?thesis
    using n1 n2 l1 l2 run
      download_by_pairs [where A = example_archive and l = 1 and d = 19722
        and location_ids = "[1, 2]" and start_date = 19721 and end_date = 19722]
      download_by_pairs [where A = example_archive and l = 2 and d = 19722
        and location_ids = "[1, 2]" and start_date = 19721 and end_date = 19722]
    by simp
qed

subsection \<open>The date window\<close>

lemma main_date_window_ignores_number_of_days:
  assumes "int_of_string s1 \<noteq> None" and "int_of_string s2 \<noteq> None"
  shows "main_date_window int_of_string strptime (env(''NUMBER_OF_DAYS'' \<mapsto> s1))
       = main_date_window int_of_string strptime (env(''NUMBER_OF_DAYS'' \<mapsto> s2))"
  using assms by (auto simp: main_date_window_def getenv_def Let_def)

text \<open>
  C4. Two runs that differ only in the environment value \<open>NUMBER_OF_DAYS\<close> (10 and 20)
  get the same window, of 30 days: the value read from the environment is overwritten
  by the constant before the start date is computed.
\<close>

theorem number_of_days_env_ignored:
  "main_date_window example_int example_strptime [''NUMBER_OF_DAYS'' \<mapsto> ''10'']
     = Inr (19722 - 30, 19722)
   \<and> main_date_window example_int example_strptime [''NUMBER_OF_DAYS'' \<mapsto> ''20'']
     = Inr (19722 - 30, 19722)"
  by (simp add: main_date_window_def getenv_def example_int_def example_strptime_def Let_def)

subsection \<open>The metadata fetcher\<close>

lemma wf_location_steps:
  assumes "wf_location location"
  shows "subscript location ''id'' = Inr (location_key location)
       \<and> hashable (location_key location)
       \<and> extract_metadata_fields location = Inr (location_entry location)
       \<and> is_dict (location_entry location)"
proof (cases location)
  case (PDict kvs)
  from assms PDict obtain i where i: "map_of kvs ''id'' = Some i" "hashable i"
    by (auto split: option.splits)
  from assms PDict have c: "dict_or_absent kvs ''country''" and p: "dict_or_absent kvs ''provider''"
    by simp_all
  have nn: "\<exists>v. nested_name (PDict kvs) key = Inr v" if "dict_or_absent kvs key" for key
  proof (cases "map_of kvs key")
    case None
    then show ?thesis by (simp add: nested_name_def)
  next
    case (Some inner)
    with that obtain kvs' where "inner = PDict kvs'"
      by (cases inner) (simp_all add: dict_or_absent_def)
    with Some show ?thesis by (simp add: nested_name_def)
  qed
  from nn [OF c] obtain cv where cv: "nested_name (PDict kvs) ''country'' = Inr cv" by blast
  from nn [OF p] obtain pv where pv: "nested_name (PDict kvs) ''provider'' = Inr pv" by blast
  show ?thesis
    using PDict i cv pv
    by (simp add: location_key_def location_entry_def extract_metadata_fields_def)
qed (use assms in simp_all)

lemma build_metadata_wf:
  assumes "list_all wf_location locations"
  shows "build_metadata locations metadata =
     Inr (fold (\<lambda>location. AList.update (location_key location) (location_entry location))
            locations metadata)"
  using assms
proof (induction locations arbitrary: metadata)
  case Nil
  then show ?case by simp
next
  case (Cons location rest)
  then have "wf_location location" and "list_all wf_location rest"
    by simp_all
  with Cons.IH wf_location_steps [of location] show ?case
    by simp
qed

lemma map_of_fold_update:
  "map_of (fold (\<lambda>x. AList.update (k x) (v x)) xs al)
     = map_of al ++ map_of (rev (map (\<lambda>x. (k x, v x)) xs))"
  by (induction xs arbitrary: al) (simp_all add: update_conv' map_add_upd_left fun_eq_iff map_add_def split: option.splits)

lemma distinct_fold_update:
  "distinct (map fst al) \<Longrightarrow> distinct (map fst (fold (\<lambda>x. AList.update (k x) (v x)) xs al))"
  by (induction xs arbitrary: al) (simp_all add: distinct_update)

lemma keys_fold_update:
  "fst ` set (fold (\<lambda>x. AList.update (k x) (v x)) xs al) = fst ` set al \<union> k ` set xs"
  by (induction xs arbitrary: al) (auto simp: dom_update)

lemma update_fresh:
  "k \<notin> fst ` set al \<Longrightarrow> AList.update k v al = al @ [(k, v)]"
  by (induction al) auto

lemma fold_update_distinct:
  assumes "distinct (map k xs)" and "k ` set xs \<inter> fst ` set al = {}"
  shows "fold (\<lambda>x. AList.update (k x) (v x)) xs al = al @ map (\<lambda>x. (k x, v x)) xs"
  using assms
proof (induction xs arbitrary: al)
  case Nil
  then show ?case by simp
next
  case (Cons x xs)
  from Cons.prems have fresh: "k x \<notin> fst ` set al" by auto
  have "k ` set xs \<inter> fst ` set (al @ [(k x, v x)]) = {}"
    using Cons.prems by auto
  with Cons.IH [of "al @ [(k x, v x)]"] Cons.prems fresh show ?case
    by (simp add: update_fresh)
qed

lemma http_error_raises:
  assumes "400 \<le> status_code (requests_get bbox api_key)"
    and "status_code (requests_get bbox api_key) < 600"
  shows "get_location_metadata requests_get city bbox api_key = Inl HTTPError"
  using assms by (simp add: get_location_metadata_def raise_for_status_def Let_def)

lemma example_locations_wf: "list_all wf_location example_locations"
  by (simp add: example_locations_def dict_or_absent_def)

lemma example_pairs: "map location_pair example_locations = example_metadata"
  by (simp add: example_locations_def example_metadata_def location_pair_def location_key_def
      location_entry_def extract_metadata_fields_def nested_name_def)

text \<open>
  C6, as stated, fails: a response with status 200 whose result object has no \<open>id\<close>
  makes the fetch raise KeyError, so an error does not imply a non-success status.
\<close>

theorem metadata_fetch_raises_on_missing_id:
  "get_location_metadata example_request_no_id ''Delhi'' () ''key'' = Inl KeyError
   \<and> \<not> (isl (get_location_metadata example_request_no_id ''Delhi'' () ''key'')
          \<longleftrightarrow> 400 \<le> status_code (example_request_no_id () ''key'')
               \<and> status_code (example_request_no_id () ''key'') < 600)"
  by (simp add: get_location_metadata_def raise_for_status_def example_request_no_id_def
      example_response_no_id_def Let_def)

text \<open>
  C6, amended. Let the body be a JSON object whose \<open>results\<close>, when present, is a list
  of well-formed location objects. Then the fetch raises exactly when the status is in
  400..599, and the error is HTTPError. Otherwise it returns a mapping whose keys are the
  identifiers of the result objects, each mapped to the record of the last result object
  with that identifier; with pairwise different identifiers the mapping lists one record
  per result object in the order of the results, and with no result it is empty.
\<close>

theorem metadata_fetch_well_formed:
  assumes body: "json_body (requests_get bbox api_key) = Some (PDict kvs)"
    and results: "dict_get (PDict kvs) ''results'' (PList []) = Inr (PList locations)"
    and wf: "list_all wf_location locations"
  shows "case get_location_metadata requests_get city bbox api_key of
           Inl e \<Rightarrow> e = HTTPError
               \<and> 400 \<le> status_code (requests_get bbox api_key)
               \<and> status_code (requests_get bbox api_key) < 600
         | Inr metadata \<Rightarrow>
               \<not> (400 \<le> status_code (requests_get bbox api_key)
                   \<and> status_code (requests_get bbox api_key) < 600)
               \<and> map_of metadata = map_of (rev (map location_pair locations))
               \<and> distinct (map fst metadata)
               \<and> fst ` set metadata = location_key ` set locations
               \<and> (distinct (map location_key locations)
                    \<longrightarrow> metadata = map location_pair locations)
               \<and> (locations = [] \<longrightarrow> metadata = [])"
proof (cases "400 \<le> status_code (requests_get bbox api_key)
              \<and> status_code (requests_get bbox api_key) < 600")
  case True
  then have "get_location_metadata requests_get city bbox api_key = Inl HTTPError"
    by (simp add: http_error_raises)
  with True show ?thesis by simp
next
  case False
  let ?md = "fold (\<lambda>location. AList.update (location_key location) (location_entry location))
               locations []"
  have "dict_get (PDict kvs) ''results'' (PList []) = Inr (PList locations)"
    by (rule results)
  then have res: "(case map_of kvs ''results'' of None \<Rightarrow> PList [] | Some v \<Rightarrow> v) = PList locations"
    by simp
  have run: "get_location_metadata requests_get city bbox api_key = Inr ?md"
    using False body res build_metadata_wf [OF wf, of "[]"]
    by (simp add: get_location_metadata_def raise_for_status_def Let_def)
  have m: "map_of ?md = map_of (rev (map location_pair locations))"
    by (simp add: map_of_fold_update location_pair_def [abs_def])
  have d: "distinct (map fst ?md)"
    by (rule distinct_fold_update) simp
  have k: "fst ` set ?md = location_key ` set locations"
    by (simp add: keys_fold_update)
  have o: "?md = map location_pair locations" if "distinct (map location_key locations)"
    using fold_update_distinct [OF that, of "[]" location_entry]
    by (simp add: location_pair_def [abs_def])
  have e: "locations = [] \<longrightarrow> ?md = []"
    by simp
  show ?thesis
    using False m d k o e by (simp add: run)
qed

theorem metadata_fetch_well_formed_witness:
  "json_body (example_request () ''key'') = Some (PDict [(''results'', PList example_locations)])
   \<and> dict_get (PDict [(''results'', PList example_locations)]) ''results'' (PList [])
       = Inr (PList example_locations)
   \<and> list_all wf_location example_locations
   \<and> get_location_metadata example_request ''Delhi'' () ''key'' = Inr example_metadata"
proof -
  have body: "json_body (example_request () ''key'') = Some (PDict [(''results'', PList example_locations)])"
    by (simp add: example_request_def example_response_def)
  have results: "dict_get (PDict [(''results'', PList example_locations)]) ''results'' (PList [])
       = Inr (PList example_locations)"
    by simp
  have keys: "distinct (map location_key example_locations)"
    by (simp add: example_locations_def location_key_def)
  have status: "status_code (example_request () ''key'') = 200"
    by (simp add: example_request_def example_response_def)
  have "get_location_metadata example_request ''Delhi'' () ''key'' = Inr example_metadata"
    using metadata_fetch_well_formed [where requests_get = example_request and bbox = "()"
        and api_key = "''key''" and city = "''Delhi''", OF body results example_locations_wf]
      keys example_pairs status
    by (cases "get_location_metadata example_request ''Delhi'' () ''key''") simp_all
  with body results example_locations_wf show ?thesis by blast
qed
subsection \<open>Data frames: column positions\<close>

lemma column_positions_sound:
  "i \<in> set (column_positions name cols) \<longleftrightarrow> i < length cols \<and> cols ! i = name"
  by (auto simp: column_positions_def)

lemma column_positions_single:
  assumes "column_positions name cols = [i]"
  shows "i < length cols \<and> cols ! i = name"
  using column_positions_sound [of i name cols] assms by simp

lemma column_positions_empty:
  "column_positions name cols = [] \<longleftrightarrow> name \<notin> set cols"
  by (auto simp: column_positions_def filter_empty_conv in_set_conv_nth)

lemma filter_eq_upt:
  "i < n \<Longrightarrow> filter (\<lambda>j. j = i) [0..<n] = [i]"
  by (induction n) (auto simp: less_Suc_eq)

lemma column_positions_distinct:
  assumes "distinct cols" and "i < length cols"
  shows "column_positions (cols ! i) cols = [i]"
proof -
  have "filter (\<lambda>j. cols ! j = cols ! i) [0..<length cols] = filter (\<lambda>j. j = i) [0..<length cols]"
    using assms by (intro filter_cong) (auto simp: nth_eq_iff_index_eq)
  then show ?thesis
    using assms(2) by (simp add: column_positions_def filter_eq_upt)
qed

lemma column_positions_append:
  "column_positions name (cols @ [new]) =
     column_positions name cols @ (if new = name then [length cols] else [])"
proof -
  have "filter (\<lambda>i. (cols @ [new]) ! i = name) [0..<length cols]
      = filter (\<lambda>i. cols ! i = name) [0..<length cols]"
    by (intro filter_cong) (auto simp: nth_append)
  then show ?thesis
    by (simp add: column_positions_def)
qed

subsection \<open>Data frames: cells and columns\<close>

lemma length_set_cell:
  assumes "length r = length cols"
  shows "length (set_cell cols name r v) = (if name \<in> set cols then length cols else Suc (length cols))"
  using assms by (simp add: set_cell_def)

lemma nth_set_cell:
  assumes "length r = length cols" and "j < length cols"
  shows "set_cell cols name r v ! j = (if cols ! j = name then v else r ! j)"
  using assms by (auto simp: set_cell_def nth_append)

lemma nth_set_cell_new:
  assumes "length r = length cols" and "name \<notin> set cols"
  shows "set_cell cols name r v ! length cols = v"
  using assms by (simp add: set_cell_def nth_append)

lemma rows_set_column:
  "rows (set_column name vals df) = map2 (set_cell (columns df) name) (rows df) vals"
  by (simp add: set_column_def)

lemma columns_set_column:
  "columns (set_column name vals df) =
     (if name \<in> set (columns df) then columns df else columns df @ [name])"
  by (simp add: set_column_def)


lemma wf_df_set_column:
  assumes "wf_df df"
  shows "wf_df (set_column name vals df)"
  using assms
  by (auto simp: wf_df_def list_all_iff rows_set_column columns_set_column length_set_cell
      dest!: set_zip_leftD)

lemma get_column_unfold:
  assumes "column_positions name (columns df) = [i]"
  shows "get_column name df = Inr (map (\<lambda>r. r ! i) (rows df))"
  using assms by (simp add: get_column_def)

lemma get_column_Inr:
  assumes "get_column name df = Inr xs"
  shows "\<exists>i. column_positions name (columns df) = [i] \<and> xs = map (\<lambda>r. r ! i) (rows df)"
  using assms by (auto simp: get_column_def split: list.splits)

lemma length_get_column:
  "get_column name df = Inr xs \<Longrightarrow> length xs = length (rows df)"
  by (auto dest: get_column_Inr)

lemma get_column_set_column_same:
  assumes wf: "wf_df df" and d: "distinct (columns df)" and l: "length vals = length (rows df)"
  shows "get_column name (set_column name vals df) = Inr vals"
proof -
  let ?cols = "columns df"
  have len: "length r = length ?cols" if "r \<in> set (rows df)" for r
    using wf that by (simp add: wf_df_def list_all_iff)
  show ?thesis
  proof (cases "name \<in> set ?cols")
    case True
    then obtain i where i: "i < length ?cols" "?cols ! i = name"
      by (auto simp: in_set_conv_nth)
    then have pos: "column_positions name (columns (set_column name vals df)) = [i]"
      using True d column_positions_distinct [of ?cols i] by (simp add: columns_set_column)
    have "map (\<lambda>r. r ! i) (rows (set_column name vals df)) = vals"
      using l i len by (intro nth_equalityI) (simp_all add: rows_set_column nth_set_cell)
    with pos show ?thesis by (simp add: get_column_unfold)
  next
    case False
    then have pos: "column_positions name (columns (set_column name vals df)) = [length ?cols]"
      using column_positions_empty [of name ?cols]
      by (simp add: columns_set_column column_positions_append)
    have "map (\<lambda>r. r ! length ?cols) (rows (set_column name vals df)) = vals"
      using l False len by (intro nth_equalityI) (simp_all add: rows_set_column nth_set_cell_new)
    with pos show ?thesis by (simp add: get_column_unfold)
  qed
qed

lemma get_column_set_column_other:
  assumes wf: "wf_df df" and l: "length vals = length (rows df)" and ne: "name \<noteq> name'"
  shows "get_column name (set_column name' vals df) = get_column name df"
proof -
  let ?cols = "columns df"
  have len: "length r = length ?cols" if "r \<in> set (rows df)" for r
    using wf that by (simp add: wf_df_def list_all_iff)
  have pos: "column_positions name (columns (set_column name' vals df)) = column_positions name ?cols"
    using ne by (simp add: columns_set_column column_positions_append)
  have cells: "map (\<lambda>r. r ! i) (rows (set_column name' vals df)) = map (\<lambda>r. r ! i) (rows df)"
    if "i < length ?cols" "?cols ! i = name" for i
  proof (rule nth_equalityI)
    show "length (map (\<lambda>r. r ! i) (rows (set_column name' vals df))) = length (map (\<lambda>r. r ! i) (rows df))"
      using l by (simp add: rows_set_column)
  next
    fix k assume "k < length (map (\<lambda>r. r ! i) (rows (set_column name' vals df)))"
    then have k: "k < length (rows df)" using l by (simp add: rows_set_column)
    then have "length (rows df ! k) = length ?cols" using len by simp
    then show "map (\<lambda>r. r ! i) (rows (set_column name' vals df)) ! k = map (\<lambda>r. r ! i) (rows df) ! k"
      using k l that ne by (cases "name' \<in> set ?cols") (simp_all add: rows_set_column nth_set_cell set_cell_def nth_append)
  qed
  show ?thesis
  proof (cases "column_positions name ?cols")
    case Nil
    then show ?thesis using pos by (simp add: get_column_def)
  next
    case (Cons i is')
    show ?thesis
    proof (cases is')
      case Nil
      with Cons have "column_positions name ?cols = [i]" by simp
      then show ?thesis
        using pos cells [of i] column_positions_single [of name ?cols i]
        by (simp add: get_column_def)
    next
      case (Cons j js)
      with \<open>column_positions name ?cols = i # is'\<close> show ?thesis
        using pos by (simp add: get_column_def)
    qed
  qed
qed

lemma distinct_columns_set_column:
  "distinct (columns df) \<Longrightarrow> distinct (columns (set_column name vals df))"
  by (simp add: columns_set_column)

lemma length_rows_set_column:
  "length vals = length (rows df) \<Longrightarrow> length (rows (set_column name vals df)) = length (rows df)"
  by (simp add: rows_set_column)

subsection \<open>Enrichment\<close>

lemma series_map_total:
  assumes "list_all (\<lambda>x. g x = Inr (h x)) xs"
  shows "series_map g xs = Inr (map h xs)"
  using assms by (induction xs) simp_all

lemma metadata_field_enriched:
  assumes "hashable c" and "list_all (\<lambda>kv. is_dict (snd kv)) metadata"
  shows "metadata_field metadata field c = Inr (enriched_cell metadata field c)"
proof (cases "if c = PNone then None else map_of metadata c")
  case None
  then show ?thesis
    using assms(1) by (simp add: metadata_field_def enriched_cell_def)
next
  case (Some entry)
  then have "(c, entry) \<in> set metadata"
    by (auto split: if_splits dest: map_of_SomeD)
  with assms(2) have "is_dict entry"
    by (auto simp: list_all_iff)
  then obtain kvs where "entry = PDict kvs"
    by (cases entry) simp_all
  with Some assms(1) show ?thesis
    by (simp add: metadata_field_def enriched_cell_def)
qed

lemma map_location_id_result:
  assumes wf: "wf_df df"
    and ids: "get_column ''location_id'' df = Inr ids"
    and hash: "list_all hashable ids"
    and md: "list_all (\<lambda>kv. is_dict (snd kv)) metadata"
  shows "map_location_id df metadata field
       = Inr (set_column field (map (enriched_cell metadata field) ids) df)"
proof -
  have "list_all (\<lambda>c. metadata_field metadata field c = Inr (enriched_cell metadata field c)) ids"
    using hash md by (simp add: list_all_iff metadata_field_enriched)
  then have "series_map (metadata_field metadata field) ids = Inr (map (enriched_cell metadata field) ids)"
    by (rule series_map_total)
  with ids show ?thesis
    by (simp add: map_location_id_def)
qed

lemma update_values:
  assumes "P v" and "list_all (\<lambda>kv. P (snd kv)) al"
  shows "list_all (\<lambda>kv. P (snd kv)) (AList.update k v al)"
  using assms by (induction al) auto

lemma fold_update_dicts:
  assumes "list_all wf_location locations" and "list_all (\<lambda>kv. is_dict (snd kv)) al"
  shows "list_all (\<lambda>kv. is_dict (snd kv))
           (fold (\<lambda>location. AList.update (location_key location) (location_entry location))
              locations al)"
  using assms
proof (induction locations arbitrary: al)
  case Nil
  then show ?case by simp
next
  case (Cons location rest)
  then have "is_dict (location_entry location)"
    using wf_location_steps [of location] by simp
  then have "list_all (\<lambda>kv. is_dict (snd kv))
               (AList.update (location_key location) (location_entry location) al)"
    using Cons.prems(2) by (rule update_values)
  with Cons show ?case by simp
qed

text \<open>The mappings that the fetcher returns for well-formed results hold records only.\<close>

lemma fetched_metadata_dicts:
  assumes "list_all wf_location locations"
    and "build_metadata locations [] = Inr metadata"
  shows "list_all (\<lambda>kv. is_dict (snd kv)) metadata"
  using assms fold_update_dicts [of locations "[]"] build_metadata_wf [of locations "[]"]
  by simp

lemma example_frame_ids: "get_column ''location_id'' example_frame = Inr [PInt 7, PInt 8, PNone]"
  by (simp add: example_frame_def get_column_def column_positions_def)

lemma example_metadata_dicts: "list_all (\<lambda>kv. is_dict (snd kv)) example_metadata"
  by (simp add: example_metadata_def)

text \<open>
  C7. Let the frame be rectangular with pairwise different labels, one of them
  \<open>location_id\<close>, with hashable identifier cells, and let every value of the mapping
  be a record. Then enrichment raises no error; the identifier column is unchanged, and
  the columns \<open>location_name\<close> and \<open>provider\<close> hold, row by row, the empty string
  where the identifier is missing or is no key of the mapping, and the field of the
  mapped record otherwise.
\<close>

theorem enrichment_fills_metadata:
  assumes wf: "wf_df df" and d: "distinct (columns df)"
    and ids: "get_column ''location_id'' df = Inr ids"
    and hash: "list_all hashable ids"
    and md: "list_all (\<lambda>kv. is_dict (snd kv)) metadata"
  shows "case enrich_data_with_metadata df metadata of
           Inl e \<Rightarrow> False
         | Inr df' \<Rightarrow>
             get_column ''location_id'' df' = Inr ids
           \<and> get_column ''location_name'' df'
               = Inr (map (enriched_cell metadata ''location_name'') ids)
           \<and> get_column ''provider'' df'
               = Inr (map (enriched_cell metadata ''provider'') ids)
           \<and> (\<forall>c \<in> set ids. c = PNone \<or> map_of metadata c = None \<longrightarrow>
                  enriched_cell metadata ''location_name'' c = PStr ''''
                \<and> enriched_cell metadata ''provider'' c = PStr '''')
           \<and> (\<forall>c \<in> set ids. \<forall>kvs. c \<noteq> PNone \<and> map_of metadata c = Some (PDict kvs) \<longrightarrow>
                  enriched_cell metadata ''location_name'' c
                    = (case map_of kvs ''location_name'' of None \<Rightarrow> PStr '''' | Some v \<Rightarrow> v)
                \<and> enriched_cell metadata ''provider'' c
                    = (case map_of kvs ''provider'' of None \<Rightarrow> PStr '''' | Some v \<Rightarrow> v))"
proof -
  let ?names = "map (enriched_cell metadata ''location_name'') ids"
  let ?provs = "map (enriched_cell metadata ''provider'') ids"
  let ?df1 = "set_column ''location_name'' ?names df"
  let ?df2 = "set_column ''provider'' ?provs ?df1"
  have n: "length ids = length (rows df)"
    using ids by (rule length_get_column)
  have step1: "map_location_id df metadata ''location_name'' = Inr ?df1"
    using wf ids hash md by (rule map_location_id_result)
  have wf1: "wf_df ?df1"
    using wf by (rule wf_df_set_column)
  have d1: "distinct (columns ?df1)"
    using d by (rule distinct_columns_set_column)
  have n1: "length (rows ?df1) = length (rows df)"
    using n by (simp add: length_rows_set_column)
  have ids1: "get_column ''location_id'' ?df1 = Inr ids"
    using ids get_column_set_column_other [OF wf, of ?names "''location_id''" "''location_name''"] n
    by simp
  have step2: "map_location_id ?df1 metadata ''provider'' = Inr ?df2"
    using wf1 ids1 hash md by (rule map_location_id_result)
  have run: "enrich_data_with_metadata df metadata = Inr ?df2"
    by (simp add: enrich_data_with_metadata_def step1 step2)
  have a: "get_column ''location_id'' ?df2 = Inr ids"
    using ids1 get_column_set_column_other [OF wf1, of ?provs "''location_id''" "''provider''"] n n1
    by simp
  have names1: "get_column ''location_name'' ?df1 = Inr ?names"
    using wf d n by (intro get_column_set_column_same) simp_all
  have b: "get_column ''location_name'' ?df2 = Inr ?names"
    using names1 get_column_set_column_other [OF wf1, of ?provs "''location_name''" "''provider''"] n n1
    by simp
  have c: "get_column ''provider'' ?df2 = Inr ?provs"
    using wf1 d1 n n1 by (intro get_column_set_column_same) simp_all
  have e: "\<forall>c \<in> set ids. c = PNone \<or> map_of metadata c = None \<longrightarrow>
                  enriched_cell metadata ''location_name'' c = PStr ''''
                \<and> enriched_cell metadata ''provider'' c = PStr ''''"
    by (auto simp: enriched_cell_def)
  have f: "\<forall>c \<in> set ids. \<forall>kvs. c \<noteq> PNone \<and> map_of metadata c = Some (PDict kvs) \<longrightarrow>
                  enriched_cell metadata ''location_name'' c
                    = (case map_of kvs ''location_name'' of None \<Rightarrow> PStr '''' | Some v \<Rightarrow> v)
                \<and> enriched_cell metadata ''provider'' c
                    = (case map_of kvs ''provider'' of None \<Rightarrow> PStr '''' | Some v \<Rightarrow> v)"
    by (auto simp: enriched_cell_def)
  show ?thesis
    using a b c e f by (simp add: run)
qed

theorem enrichment_fills_metadata_witness:
  "wf_df example_frame \<and> distinct (columns example_frame)
   \<and> get_column ''location_id'' example_frame = Inr [PInt 7, PInt 8, PNone]
   \<and> list_all hashable [PInt 7, PInt 8, PNone]
   \<and> list_all (\<lambda>kv. is_dict (snd kv)) example_metadata
   \<and> enrich_data_with_metadata example_frame example_metadata =
       Inr \<lparr>columns = [''location_id'', ''value'', ''location_name'', ''provider''],
            rows = [[PInt 7, PInt 12, PStr ''North'', PStr ''CPCB''],
                    [PInt 8, PInt 5, PStr '''', PStr ''''],
                    [PNone, PInt 3, PStr '''', PStr '''']]\<rparr>"
proof -
  have wf: "wf_df example_frame" and d: "distinct (columns example_frame)"
    by (simp_all add: example_frame_def wf_df_def)
  have hash: "list_all hashable [PInt 7, PInt 8, PNone]"
    by simp
  have run: "enrich_data_with_metadata example_frame example_metadata =
       Inr \<lparr>columns = [''location_id'', ''value'', ''location_name'', ''provider''],
            rows = [[PInt 7, PInt 12, PStr ''North'', PStr ''CPCB''],
                    [PInt 8, PInt 5, PStr '''', PStr ''''],
                    [PNone, PInt 3, PStr '''', PStr '''']]\<rparr>"
    by (simp add: enrich_data_with_metadata_def map_location_id_def example_frame_def
        example_metadata_def get_column_def column_positions_def metadata_field_def
        set_column_def set_cell_def)
  show ?thesis
    using wf d example_frame_ids hash example_metadata_dicts run
      enrichment_fills_metadata [OF wf d example_frame_ids hash example_metadata_dicts]
    by simp
qed

subsection \<open>Transformation\<close>




















end
